theory Spec2Isabelle
  imports Main "HOL-Library.Word"
begin

unbundle bit_operations_syntax

section \<open>The heap and its region provider\<close>

text \<open>
  \<^verbatim>\<open>mm.c\<close> is written for a 32-bit target: a free-list link and a directory slot
  occupy one 4-byte word (\<^verbatim>\<open>freelistpointer + 4*listnum\<close>, \<^verbatim>\<open>PUT_PTR\<close>), so
  \<^verbatim>\<open>size_t\<close>, \<^verbatim>\<open>unsigned int\<close> and pointers are all \<open>32 word\<close>; arithmetic on them
  wraps around. Addresses are byte addresses. Every access of the allocator is a 4-byte
  access, so memory is kept as one 32-bit cell per address.

  The region provider owns one arena \<open>[region_base, region_limit)\<close> from the start and
  hands it out from the bottom: \<open>region_brk\<close> is the break, the end of the part handed
  out so far. The macros of \<^verbatim>\<open>mm.c\<close> check no bound, and the whole arena is memory of the
  process, so an access is defined at every 4-byte aligned address inside the arena, also
  above the break. An access outside the arena is undefined in C; the model returns it
  as a \<open>fault\<close> value.

  \<open>copy_choice\<close> stands for the C library: it says what \<^verbatim>\<open>memcpy\<close> leaves in the cells
  for which C leaves the result open (see \<open>memcpy\<close> below). No operation changes it.
\<close>

type_synonym addr = "32 word"
type_synonym word32 = "32 word"

datatype fault = BadRead addr | BadWrite addr

record heap =
  mem :: "addr \<Rightarrow> word32"
  region_base :: addr
  region_brk :: addr
  region_limit :: addr
  heap_listp :: addr
  freelist_p :: addr
  copy_choice :: "(addr \<Rightarrow> word32) \<Rightarrow> addr \<Rightarrow> addr \<Rightarrow> word32 \<Rightarrow> addr \<Rightarrow> word32"

definition bind :: "fault + 'a \<Rightarrow> ('a \<Rightarrow> fault + 'b) \<Rightarrow> fault + 'b" where
  "bind m f = (case m of Inl e \<Rightarrow> Inl e | Inr v \<Rightarrow> f v)"

definition lift :: "fault + 'a \<Rightarrow> ('a \<Rightarrow> (fault + 'b) option) \<Rightarrow> (fault + 'b) option" where
  "lift m f = (case m of Inl e \<Rightarrow> Some (Inl e) | Inr v \<Rightarrow> f v)"

definition bindo :: "(fault + 'a) option \<Rightarrow> ('a \<Rightarrow> (fault + 'b) option) \<Rightarrow> (fault + 'b) option" where
  "bindo m f = (case m of None \<Rightarrow> None | Some r \<Rightarrow> lift r f)"

definition accessible :: "heap \<Rightarrow> addr \<Rightarrow> bool" where
  "accessible s a \<longleftrightarrow>
     a AND 3 = 0 \<and> unat (region_base s) \<le> unat a \<and> unat a + 4 \<le> unat (region_limit s)"

text \<open>
  Modelled from the spec: \<^verbatim>\<open>mem_sbrk\<close> lives in \<^verbatim>\<open>memlib.c\<close>, which is not part of the
  sources. Section 6 of the specification: it extends the region by exactly \<open>n\<close> bytes
  and returns a pointer to the first new byte, or the all-ones pointer when it refuses
  growth. The provider refuses when the request does not fit below \<open>region_limit\<close>, the
  end of its arena.
\<close>

definition mem_sbrk :: "heap \<Rightarrow> word32 \<Rightarrow> heap \<times> addr" where
  "mem_sbrk s incr =
     (if unat (region_brk s) + unat incr \<le> unat (region_limit s)
      then (s\<lparr>region_brk := region_brk s + incr\<rparr>, region_brk s)
      else (s, - 1))"

section \<open>The macros\<close>

abbreviation WSIZE :: word32 where "WSIZE \<equiv> 4"
abbreviation DSIZE :: word32 where "DSIZE \<equiv> 8"
abbreviation CHUNKS :: word32 where "CHUNKS \<equiv> 32"
abbreviation numlists :: nat where "numlists \<equiv> 12"

definition GET :: "heap \<Rightarrow> addr \<Rightarrow> fault + word32" where
  "GET s f = (if accessible s f then Inr (mem s f) else Inl (BadRead f))"

definition PUT :: "heap \<Rightarrow> addr \<Rightarrow> word32 \<Rightarrow> fault + heap" where
  "PUT s f val = (if accessible s f then Inr (s\<lparr>mem := (mem s)(f := val)\<rparr>) else Inl (BadWrite f))"

definition PACK :: "word32 \<Rightarrow> word32 \<Rightarrow> word32" where
  "PACK sz alloc = sz OR alloc"

definition GET_SIZE :: "heap \<Rightarrow> addr \<Rightarrow> fault + word32" where
  "GET_SIZE s p = bind (GET s p) (\<lambda>w. Inr (w AND NOT 7))"

definition GET_ALLOC :: "heap \<Rightarrow> addr \<Rightarrow> fault + word32" where
  "GET_ALLOC s p = bind (GET s p) (\<lambda>w. Inr (w AND 1))"

definition HDRP :: "addr \<Rightarrow> addr" where
  "HDRP bp = bp - WSIZE"

definition FTRP :: "heap \<Rightarrow> addr \<Rightarrow> fault + addr" where
  "FTRP s bp = bind (GET_SIZE s (HDRP bp)) (\<lambda>sz. Inr (bp + sz - DSIZE))"

definition NEXT_BLKP :: "heap \<Rightarrow> addr \<Rightarrow> fault + addr" where
  "NEXT_BLKP s bp = bind (GET_SIZE s (bp - WSIZE)) (\<lambda>sz. Inr (bp + sz))"

definition PREV_BLKP :: "heap \<Rightarrow> addr \<Rightarrow> fault + addr" where
  "PREV_BLKP s bp = bind (GET_SIZE s (bp - DSIZE)) (\<lambda>sz. Inr (bp - sz))"

text \<open>
  \<^verbatim>\<open>GET_NPTR\<close>, \<^verbatim>\<open>GET_PPTR\<close> and \<^verbatim>\<open>GETfreelistp\<close> are used both as values and as
  assignment targets; the \<open>SET_\<close> functions are the assignments.
\<close>

definition GET_NPTR :: "heap \<Rightarrow> addr \<Rightarrow> fault + addr" where
  "GET_NPTR s bp = GET s (bp + WSIZE)"

definition GET_PPTR :: "heap \<Rightarrow> addr \<Rightarrow> fault + addr" where
  "GET_PPTR s bp = GET s bp"

definition SET_NPTR :: "heap \<Rightarrow> addr \<Rightarrow> addr \<Rightarrow> fault + heap" where
  "SET_NPTR s bp v = PUT s (bp + WSIZE) v"

definition SET_PPTR :: "heap \<Rightarrow> addr \<Rightarrow> addr \<Rightarrow> fault + heap" where
  "SET_PPTR s bp v = PUT s bp v"

definition slot :: "heap \<Rightarrow> nat \<Rightarrow> addr" where
  "slot s listnum = freelist_p s + 4 * of_nat listnum"

definition GETfreelistp :: "heap \<Rightarrow> nat \<Rightarrow> fault + addr" where
  "GETfreelistp s listnum = GET s (slot s listnum)"

definition SETfreelistp :: "heap \<Rightarrow> nat \<Rightarrow> addr \<Rightarrow> fault + heap" where
  "SETfreelistp s listnum v = PUT s (slot s listnum) v"

definition ROUND8 :: "word32 \<Rightarrow> word32" where
  "ROUND8 p = (if p mod 8 \<noteq> 0 then p + 8 - p mod 8 else p)"

definition ALIGN :: "word32 \<Rightarrow> word32" where
  "ALIGN sz = (sz + 7) AND NOT 7"

section \<open>The helper functions\<close>

text \<open>
  The loop \<^verbatim>\<open>while ((num < numlists-1) && (bsize > 1)) { bsize >>= 1; num++; }\<close>
  that \<^verbatim>\<open>ADD_free\<close>, \<^verbatim>\<open>deletefree\<close> and \<^verbatim>\<open>find_fit\<close> each start with.
\<close>

function class_loop :: "nat \<Rightarrow> word32 \<Rightarrow> nat" where
  "class_loop num bsize =
     (if num < numlists - 1 \<and> 1 < bsize then class_loop (num + 1) (drop_bit 1 bsize) else num)"
  by pat_completeness auto
termination
  by (relation "measure (\<lambda>(num, bsize). numlists - 1 - num)") auto

declare class_loop.simps [simp del]

definition ADD_free :: "heap \<Rightarrow> addr \<Rightarrow> word32 \<Rightarrow> fault + heap" where
  "ADD_free s bp sz =
     (let num = class_loop 0 sz in
      bind (GETfreelistp s num) (\<lambda>l_ptr.
      if l_ptr \<noteq> 0 then
        bind (SET_NPTR s bp l_ptr) (\<lambda>s1.
        bind (SET_PPTR s1 bp 0) (\<lambda>s2.
        bind (SET_PPTR s2 l_ptr bp) (\<lambda>s3.
        SETfreelistp s3 num bp)))
      else
        bind (SETfreelistp s num bp) (\<lambda>s1.
        bind (SET_NPTR s1 bp l_ptr) (\<lambda>s2.
        SET_PPTR s2 bp 0))))"

definition deletefree :: "heap \<Rightarrow> addr \<Rightarrow> fault + heap" where
  "deletefree s bp =
     bind (GET_SIZE s (HDRP bp)) (\<lambda>bsize.
     let num = class_loop 0 bsize in
     bind (GET_PPTR s bp) (\<lambda>pp.
     if pp \<noteq> 0 then
       bind (GET_NPTR s bp) (\<lambda>np.
       if np \<noteq> 0 then
         bind (SET_NPTR s pp np) (\<lambda>s1.
         bind (GET_NPTR s1 bp) (\<lambda>np1.
         bind (GET_PPTR s1 bp) (\<lambda>pp1.
         SET_PPTR s1 np1 pp1)))
       else SET_NPTR s pp 0)
     else
       bind (GET_NPTR s bp) (\<lambda>np.
       if np \<noteq> 0 then
         bind (SETfreelistp s num np) (\<lambda>s1.
         bind (GET_NPTR s1 bp) (\<lambda>np1.
         SET_PPTR s1 np1 0))
       else SETfreelistp s num np)))"

definition place :: "heap \<Rightarrow> addr \<Rightarrow> word32 \<Rightarrow> fault + heap \<times> addr" where
  "place s bp asize =
     bind (GET_SIZE s (HDRP bp)) (\<lambda>csize.
     bind (deletefree s bp) (\<lambda>s1.
     if 2 * DSIZE \<le> csize - asize then
       bind (PUT s1 (HDRP bp) (PACK asize 1)) (\<lambda>s2.
       bind (FTRP s2 bp) (\<lambda>f.
       bind (PUT s2 f (PACK asize 1)) (\<lambda>s3.
       bind (NEXT_BLKP s3 bp) (\<lambda>fin.
       bind (PUT s3 (HDRP fin) (PACK (csize - asize) 0)) (\<lambda>s4.
       bind (FTRP s4 fin) (\<lambda>f2.
       bind (PUT s4 f2 (PACK (csize - asize) 0)) (\<lambda>s5.
       bind (ADD_free s5 fin (csize - asize)) (\<lambda>s6.
       Inr (s6, bp)))))))))
     else
       bind (PUT s1 (HDRP bp) (PACK csize 1)) (\<lambda>s2.
       bind (FTRP s2 bp) (\<lambda>f.
       bind (PUT s2 f (PACK csize 1)) (\<lambda>s3.
       Inr (s3, bp))))))"

text \<open>
  The \<^verbatim>\<open>for\<close> loop of \<^verbatim>\<open>find_fit\<close> follows the links until it meets a null link; on a
  cyclic list it does not return, which is the value \<open>None\<close>.
\<close>

partial_function (option) find_fit_loop :: "heap \<Rightarrow> addr \<Rightarrow> word32 \<Rightarrow> (fault + addr) option" where
  "find_fit_loop s bp sz =
     (if bp = 0 then Some (Inr 0)
      else (case GET_SIZE s (HDRP bp) of
              Inl e \<Rightarrow> Some (Inl e)
            | Inr bsz \<Rightarrow>
                if sz \<le> bsz then Some (Inr bp)
                else (case GET_NPTR s bp of
                        Inl e \<Rightarrow> Some (Inl e)
                      | Inr np \<Rightarrow> find_fit_loop s np sz)))"

definition find_fit :: "heap \<Rightarrow> word32 \<Rightarrow> (fault + addr) option" where
  "find_fit s sz =
     (let num = class_loop 0 sz in
      lift (GETfreelistp s num) (\<lambda>bp. find_fit_loop s bp sz))"

definition coalesce :: "heap \<Rightarrow> addr \<Rightarrow> fault + heap \<times> addr" where
  "coalesce s bp =
     bind (GET_SIZE s (HDRP bp)) (\<lambda>blocksize.
     bind (PREV_BLKP s bp) (\<lambda>pb.
     bind (GET_ALLOC s (HDRP pb)) (\<lambda>p_status.
     bind (NEXT_BLKP s bp) (\<lambda>nb.
     bind (GET_ALLOC s (HDRP nb)) (\<lambda>n_status.
     if n_status \<noteq> 0 \<and> p_status \<noteq> 0 then
       bind (ADD_free s bp blocksize) (\<lambda>s1. Inr (s1, bp))
     else if n_status \<noteq> 0 \<and> p_status = 0 then
       bind (deletefree s pb) (\<lambda>s1.
       bind (PREV_BLKP s1 bp) (\<lambda>pb1.
       bind (GET_SIZE s1 (HDRP pb1)) (\<lambda>psz.
       let blocksize = blocksize + psz in
       bind (PUT s1 (HDRP pb1) (PACK blocksize 0)) (\<lambda>s2.
       bind (FTRP s2 bp) (\<lambda>f.
       bind (PUT s2 f (PACK blocksize 0)) (\<lambda>s3.
       bind (PREV_BLKP s3 bp) (\<lambda>bp'.
       bind (ADD_free s3 bp' blocksize) (\<lambda>s4.
       Inr (s4, bp')))))))))
     else if p_status \<noteq> 0 \<and> n_status = 0 then
       bind (deletefree s nb) (\<lambda>s1.
       bind (NEXT_BLKP s1 bp) (\<lambda>nb1.
       bind (GET_SIZE s1 (HDRP nb1)) (\<lambda>nsz.
       let blocksize = blocksize + nsz in
       bind (PUT s1 (HDRP bp) (PACK blocksize 0)) (\<lambda>s2.
       bind (FTRP s2 bp) (\<lambda>f.
       bind (PUT s2 f (PACK blocksize 0)) (\<lambda>s3.
       bind (ADD_free s3 bp blocksize) (\<lambda>s4.
       Inr (s4, bp))))))))
     else
       bind (deletefree s pb) (\<lambda>s1.
       bind (NEXT_BLKP s1 bp) (\<lambda>nb1.
       bind (deletefree s1 nb1) (\<lambda>s2.
       bind (NEXT_BLKP s2 bp) (\<lambda>nb2.
       bind (FTRP s2 nb2) (\<lambda>nf.
       bind (GET_SIZE s2 nf) (\<lambda>nsz.
       bind (PREV_BLKP s2 bp) (\<lambda>pb2.
       bind (GET_SIZE s2 (HDRP pb2)) (\<lambda>psz.
       let blocksize = blocksize + nsz + psz in
       bind (PUT s2 (HDRP pb2) (PACK blocksize 0)) (\<lambda>s3.
       bind (NEXT_BLKP s3 bp) (\<lambda>nb3.
       bind (FTRP s3 nb3) (\<lambda>nf3.
       bind (PUT s3 nf3 (PACK blocksize 0)) (\<lambda>s4.
       bind (PREV_BLKP s4 bp) (\<lambda>bp'.
       bind (ADD_free s4 bp' blocksize) (\<lambda>s5.
       Inr (s5, bp'))))))))))))))))))))"

definition extend_heap :: "heap \<Rightarrow> word32 \<Rightarrow> fault + heap \<times> addr" where
  "extend_heap s words =
     (let sz = (if words mod 2 \<noteq> 0 then (words + 1) * WSIZE else words * WSIZE) in
      case mem_sbrk s sz of (s1, bp) \<Rightarrow>
      if bp = - 1 then Inr (s1, 0)
      else
        let sz = max sz 16 in
        bind (PUT s1 (HDRP bp) (PACK sz 0)) (\<lambda>s2.
        bind (FTRP s2 bp) (\<lambda>f.
        bind (PUT s2 f (PACK sz 0)) (\<lambda>s3.
        bind (NEXT_BLKP s3 bp) (\<lambda>nb.
        bind (PUT s3 (HDRP nb) (PACK 0 1)) (\<lambda>s4.
        coalesce s4 bp))))))"

section \<open>The allocator interface\<close>

function init_lists :: "heap \<Rightarrow> nat \<Rightarrow> fault + heap" where
  "init_lists s num =
     (if num < numlists
      then (case SETfreelistp s num 0 of Inl e \<Rightarrow> Inl e | Inr s1 \<Rightarrow> init_lists s1 (num + 1))
      else Inr s)"
  by pat_completeness auto
termination
  by (relation "measure (\<lambda>(s, num). numlists - num)") auto

declare init_lists.simps [simp del]

definition mm_init :: "heap \<Rightarrow> fault + heap \<times> int" where
  "mm_init s =
     (case mem_sbrk s (of_nat numlists * WSIZE) of (s1, fl) \<Rightarrow>
      bind (init_lists (s1\<lparr>freelist_p := fl\<rparr>) 0) (\<lambda>s2.
      case mem_sbrk s2 (4 * WSIZE) of (s3, hl) \<Rightarrow>
      let s4 = s3\<lparr>heap_listp := hl\<rparr> in
      if hl = - 1 then Inr (s4, - 1)
      else
        bind (PUT s4 (heap_listp s4) 0) (\<lambda>s5.
        bind (PUT s5 (heap_listp s5 + 1 * WSIZE) (PACK DSIZE 1)) (\<lambda>s6.
        bind (PUT s6 (heap_listp s6 + 2 * WSIZE) (PACK DSIZE 1)) (\<lambda>s7.
        bind (PUT s7 (heap_listp s7 + 3 * WSIZE) (PACK 0 1)) (\<lambda>s8.
        let s9 = s8\<lparr>heap_listp := heap_listp s8 + 2 * WSIZE\<rparr> in
        bind (extend_heap s9 (CHUNKS div WSIZE)) (\<lambda>(s10, bp).
        if bp = 0 then Inr (s10, - 1) else Inr (s10, 0))))))))"

definition adjusted_size :: "word32 \<Rightarrow> word32" where
  "adjusted_size sz =
     (if sz \<le> DSIZE then 2 * DSIZE else DSIZE * ((sz + DSIZE + (DSIZE - 1)) div DSIZE))"

definition mm_malloc :: "heap \<Rightarrow> word32 \<Rightarrow> (fault + heap \<times> addr) option" where
  "mm_malloc s sz =
     (if sz = 0 then Some (Inr (s, 0))
      else
        let asize = adjusted_size sz in
        bindo (find_fit s asize) (\<lambda>bp.
        if bp \<noteq> 0 then Some (place s bp asize)
        else
          let extendsize = max asize CHUNKS in
          lift (extend_heap s (extendsize div WSIZE)) (\<lambda>(s1, bp).
          if bp = 0 then Some (Inr (s1, 0))
          else Some (place s1 bp asize))))"

text \<open>\<^verbatim>\<open>runheaptest\<close> is 0, so \<^verbatim>\<open>mm_free\<close> does not call the checker.\<close>

definition mm_free :: "heap \<Rightarrow> addr \<Rightarrow> fault + heap" where
  "mm_free s ptr =
     (if ptr = 0 then Inr s
      else
        bind (GET_SIZE s (HDRP ptr)) (\<lambda>blocksize.
        bind (FTRP s ptr) (\<lambda>f.
        bind (PUT s f (PACK blocksize 0)) (\<lambda>s1.
        bind (PUT s1 (HDRP ptr) (PACK blocksize 0)) (\<lambda>s2.
        bind (coalesce s2 ptr) (\<lambda>(s3, bp). Inr s3))))))"

text \<open>
  \<^verbatim>\<open>memcpy\<close> is the C library's; the allocator only calls it with a byte count that is
  a multiple of 8. It checks no bound: like every access, the copy is defined when both
  ranges lie inside the provider's arena, also above the break, and a range that leaves
  the arena is a fault, reported at its first address.

  A destination cell whose source cell lies outside the destination range receives the
  word of its source cell, in whatever order the library copies. Where the source cell
  lies inside the destination range (the ranges overlap) it may have been overwritten
  before it is read, and C leaves the result open; these cells receive what
  \<open>copy_choice\<close> gives, an arbitrary function of the memory and the arguments of the
  call. Cells outside the destination range keep their words.
\<close>

definition range_ok :: "heap \<Rightarrow> addr \<Rightarrow> word32 \<Rightarrow> bool" where
  "range_ok s p n \<longleftrightarrow>
     n = 0 \<or> (p AND 3 = 0 \<and> n AND 3 = 0 \<and> unat (region_base s) \<le> unat p
               \<and> unat p + unat n \<le> unat (region_limit s))"

definition memcpy :: "heap \<Rightarrow> addr \<Rightarrow> addr \<Rightarrow> word32 \<Rightarrow> fault + heap" where
  "memcpy s dst src n =
     (if \<not> range_ok s src n then Inl (BadRead src)
      else if \<not> range_ok s dst n then Inl (BadWrite dst)
      else Inr (s\<lparr>mem := (\<lambda>a.
             if a - dst < n then
               (if src + (a - dst) - dst < n then copy_choice s (mem s) dst src n a
                else mem s (src + (a - dst)))
             else mem s a)\<rparr>))"

text \<open>
  The three branches of \<^verbatim>\<open>mm_realloc\<close> that change the heap, in the order of the source:
  the split of a block that is too large (lines 541 to 547), the merge with the next
  block (lines 560 to 581), and the move to a new block (lines 588 to 595).
\<close>

definition realloc_split :: "heap \<Rightarrow> addr \<Rightarrow> word32 \<Rightarrow> word32 \<Rightarrow> fault + heap \<times> addr" where
  "realloc_split s ptr newbsize oldbsize =
     bind (PUT s (HDRP ptr) (PACK newbsize 1)) (\<lambda>s1.
     bind (FTRP s1 ptr) (\<lambda>f.
     bind (PUT s1 f (PACK newbsize 1)) (\<lambda>s2.
     bind (NEXT_BLKP s2 ptr) (\<lambda>fin.
     bind (PUT s2 (HDRP fin) (PACK (oldbsize - newbsize) 0)) (\<lambda>s3.
     bind (FTRP s3 fin) (\<lambda>f2.
     bind (PUT s3 f2 (PACK (oldbsize - newbsize) 0)) (\<lambda>s4.
     bind (ADD_free s4 fin (oldbsize - newbsize)) (\<lambda>s5.
     Inr (s5, ptr)))))))))"

definition realloc_merge :: "heap \<Rightarrow> addr \<Rightarrow> word32 \<Rightarrow> word32 \<Rightarrow> word32 \<Rightarrow> fault + heap \<times> addr" where
  "realloc_merge s ptr newbsize blocksize newoldbsize =
     bind (NEXT_BLKP s ptr) (\<lambda>nb.
     bind (deletefree s nb) (\<lambda>s1.
     bind (NEXT_BLKP s1 ptr) (\<lambda>nb1.
     bind (GET_SIZE s1 (HDRP nb1)) (\<lambda>nsz1.
     let blocksize = blocksize + nsz1 in
     bind (PUT s1 (HDRP ptr) (PACK blocksize 0)) (\<lambda>s2.
     bind (FTRP s2 ptr) (\<lambda>f.
     bind (PUT s2 f (PACK blocksize 0)) (\<lambda>s3.
     if newoldbsize - newbsize < 2 * DSIZE then
       bind (PUT s3 (HDRP ptr) (PACK newoldbsize 1)) (\<lambda>s4.
       bind (FTRP s4 ptr) (\<lambda>f1.
       bind (PUT s4 f1 (PACK newoldbsize 1)) (\<lambda>s5.
       Inr (s5, ptr))))
     else
       bind (PUT s3 (HDRP ptr) (PACK newbsize 1)) (\<lambda>s4.
       bind (FTRP s4 ptr) (\<lambda>f1.
       bind (PUT s4 f1 (PACK newbsize 1)) (\<lambda>s5.
       bind (NEXT_BLKP s5 ptr) (\<lambda>fin.
       bind (PUT s5 (HDRP fin) (PACK (newoldbsize - newbsize) 0)) (\<lambda>s6.
       bind (FTRP s6 fin) (\<lambda>f2.
       bind (PUT s6 f2 (PACK (newoldbsize - newbsize) 0)) (\<lambda>s7.
       bind (ADD_free s7 fin (newoldbsize - newbsize)) (\<lambda>s8.
       Inr (s8, ptr))))))))))))))))"

definition realloc_move :: "heap \<Rightarrow> addr \<Rightarrow> word32 \<Rightarrow> (fault + heap \<times> addr) option" where
  "realloc_move s ptr newbsize =
     bindo (mm_malloc s newbsize) (\<lambda>(s1, newblockptr).
     if newblockptr = 0 then Some (Inr (s1, 0))
     else Some (
       bind (memcpy s1 newblockptr ptr newbsize) (\<lambda>s2.
       bind (mm_free s2 ptr) (\<lambda>s3.
       Inr (s3, newblockptr)))))"

definition mm_realloc :: "heap \<Rightarrow> addr \<Rightarrow> word32 \<Rightarrow> (fault + heap \<times> addr) option" where
  "mm_realloc s ptr sz0 =
     (let sz = ALIGN sz0; newbsize = sz + DSIZE in
      lift (GET_SIZE s (HDRP ptr)) (\<lambda>oldbsize.
      if ptr = 0 then mm_malloc s sz
      else if sint sz < 0 then Some (Inr (s, 0))
      else if sint sz = 0 then Some (bind (mm_free s ptr) (\<lambda>s1. Inr (s1, 0)))
      else if newbsize = oldbsize then Some (Inr (s, ptr))
      else if newbsize < oldbsize then
        (if oldbsize - newbsize \<le> 2 * DSIZE then Some (Inr (s, ptr))
         else Some (realloc_split s ptr newbsize oldbsize))
      else
        lift (GET_SIZE s (HDRP ptr)) (\<lambda>blocksize.
        lift (NEXT_BLKP s ptr) (\<lambda>nb.
        lift (GET_ALLOC s (HDRP nb)) (\<lambda>n_status.
        lift (GET_SIZE s (HDRP nb)) (\<lambda>nsz.
        let newoldbsize = blocksize + nsz in
        if n_status = 0 \<and> newbsize \<le> newoldbsize
        then Some (realloc_merge s ptr newbsize blocksize newoldbsize)
        else realloc_move s ptr newbsize))))))"

section \<open>The heap consistency checker\<close>

text \<open>
  \<^verbatim>\<open>mm_check\<close> prints a message for every test that fails and returns 1 or 0. The model
  returns the value together with the messages in the order printed. The counters are
  C \<^verbatim>\<open>int\<close>s that count blocks; they are unbounded integers here.
\<close>

datatype diagnostic = NotFree | Contiguous | Overlapping | TooSmall | CountMismatch

fun message :: "diagnostic \<Rightarrow> string" where
  "message NotFree = ''Test failed : block in the free list is not free. ''"
| "message Contiguous = ''Test failed : Contigous blocks of memory detected in the heap. ''"
| "message Overlapping = ''Test failed : ALLOCATED BLOCKS ARE OVERLAPPING''"
| "message TooSmall =
     ''Test failed : ALLOCATED BLOCK SIZE IS LESS THAN THE MINIMUM BLOCK SIZE OF 16 BYTES''"
| "message CountMismatch =
     ''Test failed : Number of blocks in the free list does not match the number of free blocks in the heap''"

text \<open>The two tests on a block of a free list (lines 639 to 642 and 648 to 656).\<close>

definition alloc_test :: "heap \<Rightarrow> addr \<Rightarrow> int \<times> diagnostic list \<Rightarrow> fault + int \<times> diagnostic list" where
  "alloc_test s bp st =
     (case st of (check, out) \<Rightarrow>
      bind (GET_ALLOC s (HDRP bp)) (\<lambda>a.
      if a \<noteq> 0 then Inr (0, out @ [NotFree]) else Inr (check, out)))"

definition contiguous_test :: "heap \<Rightarrow> addr \<Rightarrow> int \<times> diagnostic list \<Rightarrow> fault + int \<times> diagnostic list" where
  "contiguous_test s bp st =
     (case st of (check, out) \<Rightarrow>
      bind (PREV_BLKP s bp) (\<lambda>pb.
      bind (GET_ALLOC s (HDRP pb)) (\<lambda>p_status.
      bind (NEXT_BLKP s bp) (\<lambda>nb.
      bind (GET_ALLOC s (HDRP nb)) (\<lambda>n_status.
      if p_status = 0 \<or> n_status = 0 then Inr (0, out @ [Contiguous]) else Inr (check, out))))))"

partial_function (option) check_list ::
  "heap \<Rightarrow> addr \<Rightarrow> int \<times> int \<times> diagnostic list \<Rightarrow> (fault + int \<times> int \<times> diagnostic list) option" where
  "check_list s bp st =
     (if bp = 0 then Some (Inr st)
      else (case st of (check, numcount, out) \<Rightarrow>
        (case bind (alloc_test s bp (check, out)) (contiguous_test s bp) of
           Inl e \<Rightarrow> Some (Inl e)
         | Inr (check1, out1) \<Rightarrow>
             (case GET_NPTR s bp of
                Inl e \<Rightarrow> Some (Inl e)
              | Inr np \<Rightarrow> check_list s np (check1, numcount + 1, out1)))))"

function check_lists ::
  "heap \<Rightarrow> nat \<Rightarrow> int \<times> int \<times> diagnostic list \<Rightarrow> (fault + int \<times> int \<times> diagnostic list) option" where
  "check_lists s seglistnum st =
     (if seglistnum < numlists then
        (case GETfreelistp s seglistnum of
           Inl e \<Rightarrow> Some (Inl e)
         | Inr bp \<Rightarrow>
             (case check_list s bp st of
                None \<Rightarrow> None
              | Some (Inl e) \<Rightarrow> Some (Inl e)
              | Some (Inr st1) \<Rightarrow> check_lists s (seglistnum + 1) st1))
      else Some (Inr st))"
  by pat_completeness auto
termination
  by (relation "measure (\<lambda>(s, seglistnum, st). numlists - seglistnum)") auto

declare check_lists.simps [simp del]

text \<open>The two tests on a block of the heap walk (lines 671 to 674 and 678 to 681).\<close>

definition overlap_test :: "heap \<Rightarrow> addr \<Rightarrow> int \<times> diagnostic list \<Rightarrow> fault + int \<times> diagnostic list" where
  "overlap_test s blockpointer st =
     (case st of (check, out) \<Rightarrow>
      bind (FTRP s blockpointer) (\<lambda>f.
      bind (NEXT_BLKP s blockpointer) (\<lambda>nb.
      if HDRP nb < f then Inr (0, out @ [Overlapping]) else Inr (check, out))))"

definition minsize_test :: "heap \<Rightarrow> addr \<Rightarrow> int \<Rightarrow> int \<times> diagnostic list \<Rightarrow> fault + int \<times> diagnostic list" where
  "minsize_test s blockpointer c st =
     (case st of (check, out) \<Rightarrow>
      bind (GET_SIZE s (HDRP blockpointer)) (\<lambda>sz.
      if 0 < c \<and> sz < 16 then Inr (0, out @ [TooSmall]) else Inr (check, out)))"

definition heap_block ::
  "heap \<Rightarrow> addr \<Rightarrow> int \<times> int \<times> int \<times> diagnostic list \<Rightarrow> fault + addr \<times> int \<times> int \<times> int \<times> diagnostic list" where
  "heap_block s blockpointer st =
     (case st of (check, count, c, out) \<Rightarrow>
      bind (GET_ALLOC s (HDRP blockpointer)) (\<lambda>a.
      let count = (if a = 0 then count + 1 else count) in
      bind (overlap_test s blockpointer (check, out)) (\<lambda>st1.
      bind (minsize_test s blockpointer c st1) (\<lambda>(check2, out2).
      bind (NEXT_BLKP s blockpointer) (\<lambda>nb.
      Inr (nb, check2, count, c + 1, out2))))))"

partial_function (option) check_heap ::
  "heap \<Rightarrow> addr \<Rightarrow> int \<times> int \<times> int \<times> diagnostic list
     \<Rightarrow> (fault + int \<times> int \<times> int \<times> diagnostic list) option" where
  "check_heap s blockpointer st =
     (case GET_SIZE s (HDRP blockpointer) of
        Inl e \<Rightarrow> Some (Inl e)
      | Inr sz \<Rightarrow>
          if sz = 0 then Some (Inr st)
          else (case heap_block s blockpointer st of
                  Inl e \<Rightarrow> Some (Inl e)
                | Inr (nb, st1) \<Rightarrow> check_heap s nb st1))"

definition mm_check :: "heap \<Rightarrow> (fault + int \<times> diagnostic list) option" where
  "mm_check s =
     bindo (check_lists s 0 (1, 0, [])) (\<lambda>(check, numcount, out).
     bindo (check_heap s (heap_listp s) (check, 0, 0, out)) (\<lambda>(check1, count, c, out1).
     let (check2, out2) =
           (if count \<noteq> numcount then (0, out1 @ [CountMismatch]) else (check1, out1))
     in Some (Inr (if check2 \<noteq> 0 then 1 else 0, out2))))"

section \<open>A fresh region\<close>

text \<open>
  The state before \<^verbatim>\<open>mm_init\<close>: an arena of 20 MB at an 8-byte aligned base, nothing
  of it handed out, with arbitrary memory contents; the two static pointers are 0. The
  scenarios take \<open>no_choice\<close> for the library's choice, which leaves 0 in the cells that
  C leaves open; where a scenario reaches such a cell, it is stated for every choice.
\<close>

definition no_choice :: "(addr \<Rightarrow> word32) \<Rightarrow> addr \<Rightarrow> addr \<Rightarrow> word32 \<Rightarrow> addr \<Rightarrow> word32" where
  "no_choice m dst src n a = 0"

definition fresh :: "(addr \<Rightarrow> word32) \<Rightarrow> heap" where
  "fresh m = \<lparr>mem = m, region_base = 0x10000, region_brk = 0x10000,
              region_limit = 0x10000 + 0x1400000, heap_listp = 0, freelist_p = 0,
              copy_choice = no_choice\<rparr>"

text \<open>The memory that holds 0 everywhere, for closed examples.\<close>

definition blank :: "addr \<Rightarrow> word32" where
  "blank a = 0"

text \<open>Two heaps with the same region and the same static pointers.\<close>

definition same_region :: "heap \<Rightarrow> heap \<Rightarrow> bool" where
  "same_region s s' \<longleftrightarrow>
     region_base s' = region_base s \<and> region_brk s' = region_brk s
     \<and> region_limit s' = region_limit s \<and> heap_listp s' = heap_listp s
     \<and> freelist_p s' = freelist_p s \<and> copy_choice s' = copy_choice s"

text \<open>
  The adjusted size in the words of the specification (section 4.3), on natural numbers,
  where \<open>n + 8\<close> and the rounding do not wrap around.
\<close>

definition round_up_to_8 :: "nat \<Rightarrow> nat" where
  "round_up_to_8 k = (k + 7) div 8 * 8"

definition asize_spec :: "nat \<Rightarrow> nat" where
  "asize_spec n = (if n \<le> 8 then 16 else round_up_to_8 (n + 8))"

text \<open>
  \<^verbatim>\<open>extend_heap\<close> in the words of the specification (section 4.5): round the number of
  words up to even; request that many words, \<open>words * WSIZE\<close> bytes, from the provider
  and return null when it fails; write a free header and footer of the requested size
  at the returned address and an epilogue header right after the new block; return
  \<^verbatim>\<open>coalesce\<close> of the new block. The byte count is a natural number, which does not
  wrap around.
\<close>

definition request_spec :: "word32 \<Rightarrow> nat" where
  "request_spec words = (if odd (unat words) then unat words + 1 else unat words) * 4"

definition extend_heap_spec :: "heap \<Rightarrow> word32 \<Rightarrow> fault + heap \<times> addr" where
  "extend_heap_spec s words =
     (let n = of_nat (request_spec words)
      in case mem_sbrk s n of (s1, bp) \<Rightarrow>
         if bp = - 1 then Inr (s1, 0)
         else
           bind (PUT s1 (HDRP bp) (PACK n 0)) (\<lambda>s2.
           bind (PUT s2 (bp + n - DSIZE) (PACK n 0)) (\<lambda>s3.
           bind (PUT s3 (bp + n - WSIZE) (PACK 0 1)) (\<lambda>s4.
           coalesce s4 bp))))"

text \<open>
  A free list as the sequence of its blocks: \<open>chain s h xs\<close> says that following the next
  links from \<open>h\<close> visits the blocks \<open>xs\<close> and then meets the null link.
\<close>

fun chain :: "heap \<Rightarrow> addr \<Rightarrow> addr list \<Rightarrow> bool" where
  "chain s h [] \<longleftrightarrow> h = 0"
| "chain s h (b # bs) \<longleftrightarrow>
     h = b \<and> b \<noteq> 0 \<and> (case GET_NPTR s b of Inl e \<Rightarrow> False | Inr np \<Rightarrow> chain s np bs)"

text \<open>
  \<^verbatim>\<open>find_fit\<close> in the words of the specification (section 4.3), on the blocks of the list
  of the class of the request: the first block, from the head, whose size is at least
  the request; null when there is none.
\<close>

fun find_fit_spec :: "heap \<Rightarrow> word32 \<Rightarrow> addr list \<Rightarrow> fault + addr" where
  "find_fit_spec s sz [] = Inr 0"
| "find_fit_spec s sz (b # bs) =
     bind (GET_SIZE s (HDRP b)) (\<lambda>bsz. if sz \<le> bsz then Inr b else find_fit_spec s sz bs)"

text \<open>
  The results of \<^verbatim>\<open>coalesce\<close> in the words of the specification (section 4.4). A free
  block of size \<open>sz\<close> that starts at \<open>b\<close> has the header \<open>sz|0\<close> at \<open>b - 4\<close> and the footer
  \<open>sz|0\<close> at \<open>b + sz - 8\<close>. \<open>insert_merged\<close> makes the merged block: it writes these two
  tags and inserts the block into the free list of the class of \<open>sz\<close>; \<open>insert_free\<close> only
  inserts the block whose tags are already there. \<open>tags_kept\<close> says
  that the cells of a list hold the same words in two heaps.
\<close>

definition free_block_at :: "heap \<Rightarrow> addr \<Rightarrow> word32 \<Rightarrow> bool" where
  "free_block_at s b sz \<longleftrightarrow>
     GET s (HDRP b) = Inr (PACK sz 0) \<and> GET s (b + sz - DSIZE) = Inr (PACK sz 0)"

definition insert_merged :: "heap \<Rightarrow> addr \<Rightarrow> word32 \<Rightarrow> fault + heap \<times> addr" where
  "insert_merged s b sz =
     bind (PUT s (HDRP b) (PACK sz 0)) (\<lambda>s1.
     bind (PUT s1 (b + sz - DSIZE) (PACK sz 0)) (\<lambda>s2.
     bind (ADD_free s2 b sz) (\<lambda>s3.
     Inr (s3, b))))"

definition insert_free :: "heap \<Rightarrow> addr \<Rightarrow> word32 \<Rightarrow> fault + heap \<times> addr" where
  "insert_free s b sz = bind (ADD_free s b sz) (\<lambda>s1. Inr (s1, b))"

definition tags_kept :: "heap \<Rightarrow> heap \<Rightarrow> addr list \<Rightarrow> bool" where
  "tags_kept s s' as \<longleftrightarrow> (\<forall>a\<in>set as. mem s' a = mem s a)"

text \<open>
  The part of \<^verbatim>\<open>mm_free\<close> before the call of \<^verbatim>\<open>coalesce\<close>: the header and the footer of
  the block are marked free.
\<close>

definition mark_free :: "heap \<Rightarrow> addr \<Rightarrow> fault + heap" where
  "mark_free s ptr =
     bind (GET_SIZE s (HDRP ptr)) (\<lambda>blocksize.
     bind (FTRP s ptr) (\<lambda>f.
     bind (PUT s f (PACK blocksize 0)) (\<lambda>s1.
     PUT s1 (HDRP ptr) (PACK blocksize 0))))"

section \<open>Heaps of the scenarios\<close>

text \<open>
  The heap that \<^verbatim>\<open>mm_init\<close> builds in the fresh region: the directory of twelve list
  heads at \<open>0x10000\<close>, the padding word, the prologue (header and footer \<open>8|1\<close>), one
  free block of 32 bytes at \<open>0x10040\<close> that heads list 5, and the epilogue.
\<close>

definition heap_init :: "(addr \<Rightarrow> word32) \<Rightarrow> heap" where
  "heap_init m =
     \<lparr>mem = m(65536 := 0, 65540 := 0, 65544 := 0, 65548 := 0, 65552 := 0,
              65560 := 0, 65564 := 0, 65568 := 0, 65572 := 0, 65576 := 0,
              65580 := 0, 65584 := 0, 65588 := 9, 65592 := 9,
              65596 := 32, 65624 := 32, 65628 := 1, 65556 := 65600,
              65604 := 0, 65600 := 0),
      region_base = 65536, region_brk = 65632, region_limit = 21037056,
      heap_listp = 65592, freelist_p = 65536,
      copy_choice = no_choice\<rparr>"

text \<open>
  After \<^verbatim>\<open>p = mm_malloc(100)\<close>: an allocated block of 112 bytes at \<open>p = 0x10040\<close>
  followed by a free block of 32 bytes.
\<close>

definition heap_alloc100 :: "(addr \<Rightarrow> word32) \<Rightarrow> heap" where
  "heap_alloc100 m =
     \<lparr>mem = m(65536 := 0, 65540 := 0, 65544 := 0, 65548 := 0, 65552 := 0,
              65560 := 0, 65568 := 0, 65572 := 0, 65576 := 0, 65580 := 0,
              65584 := 0, 65588 := 9, 65592 := 9, 65624 := 32,
              65628 := 112, 65740 := 1, 65604 := 0, 65600 := 0,
              65564 := 0, 65596 := 113, 65704 := 113, 65708 := 32,
              65736 := 32, 65556 := 65712, 65716 := 0, 65712 := 0),
      region_base = 65536, region_brk = 65744, region_limit = 21037056,
      heap_listp = 65592, freelist_p = 65536,
      copy_choice = no_choice\<rparr>"

text \<open>
  After \<^verbatim>\<open>mm_realloc(p, 50)\<close> on that heap: the block at \<open>p\<close> has 64 bytes, the
  surplus is a free block of 48 bytes at \<open>0x10080\<close>, and the free block of 32 bytes at
  \<open>0x100B0\<close> follows it.
\<close>

definition heap_shrunk :: "(addr \<Rightarrow> word32) \<Rightarrow> heap" where
  "heap_shrunk m =
     \<lparr>mem = m(65536 := 0, 65540 := 0, 65544 := 0, 65548 := 0, 65552 := 0,
              65560 := 0, 65568 := 0, 65572 := 0, 65576 := 0, 65580 := 0,
              65584 := 0, 65588 := 9, 65592 := 9, 65624 := 32,
              65628 := 112, 65740 := 1, 65604 := 0, 65600 := 0,
              65564 := 0, 65708 := 32, 65736 := 32, 65716 := 0,
              65596 := 65, 65656 := 65, 65660 := 48, 65704 := 48,
              65668 := 65712, 65664 := 0, 65712 := 65664,
              65556 := 65664),
      region_base = 65536, region_brk = 65744, region_limit = 21037056,
      heap_listp = 65592, freelist_p = 65536,
      copy_choice = no_choice\<rparr>"

text \<open>
  After \<^verbatim>\<open>p = mm_malloc(16)\<close> on the heap of \<^verbatim>\<open>mm_init\<close>: an allocated block of 24
  bytes at \<open>p = 0x10040\<close> followed by a free block of 40 bytes at \<open>0x10058\<close>.
\<close>

definition heap_alloc16 :: "(addr \<Rightarrow> word32) \<Rightarrow> heap" where
  "heap_alloc16 m =
     \<lparr>mem = m(65536 := 0, 65540 := 0, 65544 := 0, 65548 := 0, 65552 := 0,
              65564 := 0, 65568 := 0, 65572 := 0, 65576 := 0, 65580 := 0,
              65584 := 0, 65588 := 9, 65592 := 9, 65660 := 1, 65604 := 0,
              65600 := 0, 65560 := 0, 65596 := 25, 65616 := 25,
              65620 := 40, 65656 := 40, 65556 := 65624, 65628 := 0,
              65624 := 0),
      region_base = 65536, region_brk = 65664, region_limit = 21037056,
      heap_listp = 65592, freelist_p = 65536,
      copy_choice = no_choice\<rparr>"

text \<open>After \<^verbatim>\<open>mm_free(p)\<close> on that heap: one free block of 64 bytes at \<open>p\<close>.\<close>

definition heap_freed16 :: "(addr \<Rightarrow> word32) \<Rightarrow> heap" where
  "heap_freed16 m =
     \<lparr>mem = m(65536 := 0, 65540 := 0, 65544 := 0, 65548 := 0, 65552 := 0,
              65564 := 0, 65568 := 0, 65572 := 0, 65576 := 0, 65580 := 0,
              65584 := 0, 65588 := 9, 65592 := 9, 65660 := 1,
              65620 := 40, 65628 := 0, 65624 := 0, 65616 := 24,
              65556 := 0, 65596 := 64, 65656 := 64, 65560 := 65600,
              65604 := 0, 65600 := 0),
      region_base = 65536, region_brk = 65664, region_limit = 21037056,
      heap_listp = 65592, freelist_p = 65536,
      copy_choice = no_choice\<rparr>"

text \<open>
  The heap of \<^verbatim>\<open>mm_init\<close> after \<^verbatim>\<open>extend_heap\<close> has added 112 bytes: the new block
  has merged with the free block before it into one free block of 144 bytes.
\<close>

definition heap_grown112 :: "(addr \<Rightarrow> word32) \<Rightarrow> heap" where
  "heap_grown112 m =
     \<lparr>mem = m(65536 := 0, 65540 := 0, 65544 := 0, 65548 := 0, 65552 := 0,
              65560 := 0, 65568 := 0, 65572 := 0, 65576 := 0, 65580 := 0,
              65584 := 0, 65588 := 9, 65592 := 9, 65624 := 32,
              65628 := 112, 65740 := 1, 65556 := 0, 65596 := 144,
              65736 := 144, 65564 := 65600, 65604 := 0, 65600 := 0),
      region_base = 65536, region_brk = 65744, region_limit = 21037056,
      heap_listp = 65592, freelist_p = 65536,
      copy_choice = no_choice\<rparr>"

text \<open>The heap of \<^verbatim>\<open>mm_init\<close> in a region that has no room left.\<close>

definition heap_full :: heap where
  "heap_full = (heap_init blank)\<lparr>region_limit := 65632\<rparr>"

text \<open>
  The heap of \<^verbatim>\<open>mm_init\<close> after \<^verbatim>\<open>extend_heap(8)\<close>: one free block of 64 bytes.
\<close>

definition heap_grown32 :: heap where
  "heap_grown32 =
     \<lparr>mem = blank(65536 := 0, 65540 := 0, 65544 := 0, 65548 := 0, 65552 := 0,
              65564 := 0, 65568 := 0, 65572 := 0, 65576 := 0, 65580 := 0,
              65584 := 0, 65588 := 9, 65592 := 9, 65624 := 32,
              65628 := 32, 65660 := 1, 65556 := 0, 65596 := 64,
              65656 := 64, 65560 := 65600, 65604 := 0, 65600 := 0),
      region_base = 65536, region_brk = 65664, region_limit = 21037056,
      heap_listp = 65592, freelist_p = 65536,
      copy_choice = no_choice\<rparr>"

text \<open>
  The heap of \<^verbatim>\<open>mm_init\<close> after \<^verbatim>\<open>mm_malloc(0xFFFFFFF9)\<close>: the heap has grown by 32
  bytes, the block at \<open>0x10040\<close> is allocated with size 8, its footer lies in the first
  word of its payload, and a free block of 56 bytes follows at \<open>0x10048\<close>.
\<close>

definition heap_tiny :: "(addr \<Rightarrow> word32) \<Rightarrow> heap" where
  "heap_tiny m =
     \<lparr>mem = m(65536 := 0, 65540 := 0, 65544 := 0, 65548 := 0, 65552 := 0,
              65564 := 0, 65568 := 0, 65572 := 0, 65576 := 0, 65580 := 0,
              65584 := 0, 65588 := 9, 65592 := 9, 65624 := 32, 65628 := 32,
              65660 := 1, 65560 := 0, 65596 := 9, 65600 := 9, 65604 := 56,
              65656 := 56, 65556 := 65608, 65612 := 0, 65608 := 0),
      region_base = 65536, region_brk = 65664, region_limit = 21037056,
      heap_listp = 65592, freelist_p = 65536,
      copy_choice = no_choice\<rparr>"

text \<open>
  The heap after \<^verbatim>\<open>p = mm_malloc(16)\<close> and the caller's writes of four words
  \<open>w0, w1, w2, w3\<close> to the 16 bytes at \<open>p = 0x10040\<close>.
\<close>

definition heap_written16 ::
  "(addr \<Rightarrow> word32) \<Rightarrow> word32 \<Rightarrow> word32 \<Rightarrow> word32 \<Rightarrow> word32 \<Rightarrow> heap" where
  "heap_written16 m w0 w1 w2 w3 =
     (heap_alloc16 m)\<lparr>mem := (mem (heap_alloc16 m))
        (0x10040 := w0, 0x10044 := w1, 0x10048 := w2, 0x1004C := w3)\<rparr>"

text \<open>
  That heap after \<^verbatim>\<open>mm_malloc(4104)\<close>: the heap has grown by 4112 bytes, and the new
  allocated block of 4112 bytes lies at \<open>0x10058\<close>, right behind the block of \<open>p\<close>.
\<close>

definition heap_new4104 ::
  "(addr \<Rightarrow> word32) \<Rightarrow> word32 \<Rightarrow> word32 \<Rightarrow> word32 \<Rightarrow> word32 \<Rightarrow> heap" where
  "heap_new4104 m w0 w1 w2 w3 =
     \<lparr>mem = m(65536 := 0, 65540 := 0, 65544 := 0, 65548 := 0, 65552 := 0,
              65564 := 0, 65568 := 0, 65572 := 0, 65576 := 0, 65584 := 0,
              65588 := 9, 65592 := 9, 65560 := 0, 65596 := 25, 65616 := 25,
              65656 := 40, 65600 := w0, 65604 := w1, 65608 := w2, 65612 := w3,
              65660 := 4112, 69772 := 1, 65628 := 0, 65624 := 0, 65580 := 0,
              65620 := 4113, 69728 := 4113, 69732 := 40, 69768 := 40,
              65556 := 69736, 69740 := 0, 69736 := 0),
      region_base = 65536, region_brk = 69776, region_limit = 21037056,
      heap_listp = 65592, freelist_p = 65536,
      copy_choice = no_choice\<rparr>"

text \<open>
  After the copy of 4104 bytes from \<open>p\<close> to the new block, with \<open>c\<close> for the library's
  choice: the two ranges overlap, the first 24 bytes of the source lie outside the
  destination. And after \<^verbatim>\<open>mm_free(p)\<close>.
\<close>

definition heap_copied ::
  "((addr \<Rightarrow> word32) \<Rightarrow> addr \<Rightarrow> addr \<Rightarrow> word32 \<Rightarrow> addr \<Rightarrow> word32)
     \<Rightarrow> (addr \<Rightarrow> word32) \<Rightarrow> word32 \<Rightarrow> word32 \<Rightarrow> word32 \<Rightarrow> word32 \<Rightarrow> heap" where
  "heap_copied c m w0 w1 w2 w3 =
     (heap_new4104 m w0 w1 w2 w3)\<lparr>copy_choice := c, mem :=
        (\<lambda>a. if a - 0x10058 < 4104
             then (if 0x10040 + (a - 0x10058) - 0x10058 < 4104
                   then c (mem (heap_new4104 m w0 w1 w2 w3)) 0x10058 0x10040 4104 a
                   else mem (heap_new4104 m w0 w1 w2 w3) (0x10040 + (a - 0x10058)))
             else mem (heap_new4104 m w0 w1 w2 w3) a)\<rparr>"

definition heap_moved ::
  "((addr \<Rightarrow> word32) \<Rightarrow> addr \<Rightarrow> addr \<Rightarrow> word32 \<Rightarrow> addr \<Rightarrow> word32)
     \<Rightarrow> (addr \<Rightarrow> word32) \<Rightarrow> word32 \<Rightarrow> word32 \<Rightarrow> word32 \<Rightarrow> word32 \<Rightarrow> heap" where
  "heap_moved c m w0 w1 w2 w3 =
     (heap_copied c m w0 w1 w2 w3)\<lparr>mem := (mem (heap_copied c m w0 w1 w2 w3))
        (65616 := 24, 65596 := 24, 65552 := 65600, 65604 := 0, 65600 := 0)\<rparr>"

text \<open>
  The heap of \<^verbatim>\<open>mm_init\<close> after \<^verbatim>\<open>a = mm_malloc(4096); p = mm_malloc(16); mm_free(a)\<close>:
  a free block of 4104 bytes at \<open>a = 0x10040\<close>, the allocated block of 24 bytes at
  \<open>p = 0x11048\<close> and a free block of 40 bytes at \<open>0x11060\<close>, the last of the heap.
\<close>

definition heap_far :: "(addr \<Rightarrow> word32) \<Rightarrow> heap" where
  "heap_far m =
     \<lparr>mem = m(65536 := 0, 65540 := 0, 65544 := 0, 65548 := 0, 65552 := 0,
              65564 := 0, 65568 := 0, 65572 := 0, 65576 := 0, 65584 := 0,
              65588 := 9, 65592 := 9, 65624 := 32, 65628 := 4104, 69764 := 1,
              69708 := 0, 69704 := 0, 65560 := 0, 69700 := 25, 69720 := 25,
              69724 := 40, 69760 := 40, 65556 := 69728, 69732 := 0, 69728 := 0,
              69696 := 4104, 65596 := 4104, 65580 := 65600, 65604 := 0,
              65600 := 0),
      region_base = 65536, region_brk = 69768, region_limit = 21037056,
      heap_listp = 65592, freelist_p = 65536,
      copy_choice = no_choice\<rparr>"

text \<open>
  That heap after \<^verbatim>\<open>mm_malloc(4008)\<close>: the new block of 4016 bytes lies at \<open>0x10040\<close>,
  before the block of \<open>p\<close>, and a free block of 88 bytes follows it.
\<close>

definition heap_far_new :: "(addr \<Rightarrow> word32) \<Rightarrow> heap" where
  "heap_far_new m =
     \<lparr>mem = m(65536 := 0, 65540 := 0, 65544 := 0, 65548 := 0, 65552 := 0,
              65564 := 0, 65568 := 0, 65572 := 0, 65576 := 0, 65584 := 0,
              65588 := 9, 65592 := 9, 65624 := 32, 65628 := 4104, 69764 := 1,
              69708 := 0, 69704 := 0, 69700 := 25, 69720 := 25, 69724 := 40,
              69760 := 40, 65556 := 69728, 69732 := 0, 69728 := 0, 65604 := 0,
              65600 := 0, 65580 := 0, 65596 := 4017, 69608 := 4017, 69612 := 88,
              69696 := 88, 65560 := 69616, 69620 := 0, 69616 := 0),
      region_base = 65536, region_brk = 69768, region_limit = 21037056,
      heap_listp = 65592, freelist_p = 65536,
      copy_choice = no_choice\<rparr>"

text \<open>
  After the copy of 4008 bytes from \<open>p\<close> to the new block. The source range ends at
  \<open>0x11FF0\<close>, above the break \<open>0x11088\<close> and inside the arena; the two ranges do not
  overlap.
\<close>

definition heap_far_copied :: "(addr \<Rightarrow> word32) \<Rightarrow> heap" where
  "heap_far_copied m =
     (heap_far_new m)\<lparr>mem :=
        (\<lambda>a. if a - 0x10040 < 4008
             then (if 0x11048 + (a - 0x10040) - 0x10040 < 4008
                   then no_choice (mem (heap_far_new m)) 0x10040 0x11048 4008 a
                   else mem (heap_far_new m) (0x11048 + (a - 0x10040)))
             else mem (heap_far_new m) a)\<rparr>"

text \<open>
  After \<^verbatim>\<open>mm_free(p)\<close> on that heap: the block of \<open>p\<close> has merged with the free blocks on
  both sides into one free block of 152 bytes at \<open>0x10FF0\<close>.
\<close>

definition heap_far_moved :: "(addr \<Rightarrow> word32) \<Rightarrow> heap" where
  "heap_far_moved m =
     (heap_far_copied m)\<lparr>mem := (mem (heap_far_copied m))
        (69720 := 24, 69700 := 24, 65560 := 0, 65556 := 0, 69612 := 152,
         69760 := 152, 65564 := 69616, 69620 := 0, 69616 := 0)\<rparr>"

section \<open>Evaluation\<close>

lemmas macros =
  bind_def lift_def bindo_def accessible_def mem_sbrk_def GET_def PUT_def PACK_def
  GET_SIZE_def GET_ALLOC_def HDRP_def FTRP_def NEXT_BLKP_def PREV_BLKP_def GET_NPTR_def
  GET_PPTR_def SET_NPTR_def SET_PPTR_def slot_def GETfreelistp_def SETfreelistp_def
  Let_def class_loop.simps

lemmas operations =
  mm_init_def init_lists.simps extend_heap_def coalesce_def ADD_free_def deletefree_def
  place_def find_fit_def find_fit_loop.simps mm_malloc_def adjusted_size_def mm_free_def
  mm_realloc_def realloc_split_def realloc_merge_def realloc_move_def memcpy_def
  range_ok_def ALIGN_def

lemmas checker =
  mm_check_def check_lists.simps check_list.simps check_heap.simps heap_block_def
  overlap_test_def minsize_test_def alloc_test_def contiguous_test_def

lemma mm_init_fresh: "mm_init (fresh m) = Inr (heap_init m, 0)"
  by (simp add: operations macros fresh_def heap_init_def)

lemma mm_check_init: "mm_check (heap_init m) = Some (Inr (1, []))"
  by (simp add: checker macros heap_init_def)

lemma malloc_100: "mm_malloc (heap_init m) 100 = Some (Inr (heap_alloc100 m, 65600))"
  by (simp add: operations macros heap_init_def heap_alloc100_def)

lemma mm_check_alloc100: "mm_check (heap_alloc100 m) = Some (Inr (1, []))"
  by (simp add: checker macros heap_alloc100_def)

lemma realloc_50: "mm_realloc (heap_alloc100 m) 65600 50 = Some (Inr (heap_shrunk m, 65600))"
  by (simp add: operations macros heap_alloc100_def heap_shrunk_def)

lemma mm_check_shrunk: "mm_check (heap_shrunk m) = Some (Inr (0, [Contiguous, Contiguous]))"
  by (simp add: checker macros heap_shrunk_def)

section \<open>The checker after a shrinking reallocation\<close>

text \<open>
  Claim C1. The checker returns true after every call of a sequence of valid calls; in
  particular after \<^verbatim>\<open>p = allocate(100); q = reallocate(p, 50)\<close> the result \<open>q\<close> is \<open>p\<close>,
  the surplus is a free block and the checker returns true.

  On the code the last part fails. Starting from the heap of \<^verbatim>\<open>mm_init\<close>, for any
  initial memory contents, the checker returns 1 after \<^verbatim>\<open>mm_init\<close> and after
  \<^verbatim>\<open>mm_malloc(100)\<close>; \<^verbatim>\<open>mm_realloc(p, 50)\<close> returns \<open>p\<close> and leaves the surplus of 48
  bytes as a free block, but it does not merge it with the free block that follows, and
  the checker then returns 0 with the message of its contiguity test for both blocks.
\<close>

theorem check_fails_after_realloc_shrink:
  "mm_init (fresh m) = Inr (heap_init m, 0)
   \<and> mm_check (heap_init m) = Some (Inr (1, []))
   \<and> mm_malloc (heap_init m) 100 = Some (Inr (heap_alloc100 m, 0x10040))
   \<and> mm_check (heap_alloc100 m) = Some (Inr (1, []))
   \<and> mm_realloc (heap_alloc100 m) 0x10040 50 = Some (Inr (heap_shrunk m, 0x10040))
   \<and> GET (heap_shrunk m) (HDRP 0x10040) = Inr (PACK 64 1)
   \<and> GET (heap_shrunk m) (HDRP 0x10080) = Inr (PACK 48 0)
   \<and> GET (heap_shrunk m) (HDRP 0x100B0) = Inr (PACK 32 0)
   \<and> mm_check (heap_shrunk m) = Some (Inr (0, [Contiguous, Contiguous]))"
  using mm_init_fresh [of m] mm_check_init [of m] malloc_100 [of m] mm_check_alloc100 [of m]
    realloc_50 [of m] mm_check_shrunk [of m]
  by (simp add: heap_shrunk_def GET_def HDRP_def PACK_def accessible_def)

section \<open>The degenerate arguments of \<^verbatim>\<open>mm_realloc\<close>\<close>

lemma null_header_inaccessible: "\<not> accessible s (0 - 4)"
proof -
  have "unat (region_limit s) < 2 ^ 32"
    using unsigned_less [of "region_limit s"] by simp
  then show ?thesis by (simp add: accessible_def)
qed

lemma malloc_16: "mm_malloc (heap_init m) 16 = Some (Inr (heap_alloc16 m, 65600))"
  by (simp add: operations macros heap_init_def heap_alloc16_def)

lemma free_16: "mm_free (heap_alloc16 m) 65600 = Inr (heap_freed16 m)"
  by (simp add: operations macros heap_alloc16_def heap_freed16_def)

lemma realloc_minus_one:
  "mm_realloc (heap_alloc16 m) 65600 (- 1) = Some (Inr (heap_freed16 m, 0))"
  by (simp add: operations macros heap_alloc16_def heap_freed16_def)

lemma realloc_null_8: "mm_realloc (heap_init m) 0 8 = Some (Inl (BadRead (0 - 4)))"
  using null_header_inaccessible [of "heap_init m"]
  by (simp add: mm_realloc_def lift_def GET_SIZE_def GET_def bind_def HDRP_def Let_def)

lemma malloc_8_not_null: "\<exists>s. mm_malloc (heap_init m) 8 = Some (Inr (s, 65600))"
  by (simp add: operations macros heap_init_def)

text \<open>
  Claim C6. \<^verbatim>\<open>reallocate(null, n)\<close> is equivalent to \<^verbatim>\<open>allocate(n)\<close>; \<^verbatim>\<open>reallocate(p, 0)\<close>
  frees the block of \<open>p\<close> and returns null; \<^verbatim>\<open>reallocate(p, n)\<close> with \<open>n\<close> negative as a
  signed value returns null and leaves the block of \<open>p\<close> unchanged.

  The code rounds the size up to a multiple of 8 and reads the header of \<open>ptr\<close> before
  any test. On the heap with one allocated block at \<open>p = 0x10040\<close>, the size \<open>-1\<close>
  (\<open>0xFFFFFFFF\<close>) is rounded to 0, so \<^verbatim>\<open>mm_realloc(p, -1)\<close> takes the branch of size 0:
  it frees the block of \<open>p\<close>, whose header changes from allocated to free. And
  \<^verbatim>\<open>mm_realloc(NULL, 8)\<close> faults at the header read below the null pointer, where
  \<^verbatim>\<open>mm_malloc(8)\<close> returns a block.
\<close>

theorem realloc_negative_size_frees_block:
  "mm_malloc (heap_init m) 16 = Some (Inr (heap_alloc16 m, 0x10040))
   \<and> sint (- 1 :: word32) < 0
   \<and> mm_realloc (heap_alloc16 m) 0x10040 (- 1) = Some (Inr (heap_freed16 m, 0))
   \<and> mm_free (heap_alloc16 m) 0x10040 = Inr (heap_freed16 m)
   \<and> GET_ALLOC (heap_alloc16 m) (HDRP 0x10040) = Inr 1
   \<and> GET_ALLOC (heap_freed16 m) (HDRP 0x10040) = Inr 0
   \<and> mm_realloc (heap_init m) 0 8 = Some (Inl (BadRead (0 - 4)))
   \<and> (\<exists>s. mm_malloc (heap_init m) 8 = Some (Inr (s, 0x10040)))"
  using malloc_16 [of m] free_16 [of m] realloc_minus_one [of m] realloc_null_8 [of m]
    malloc_8_not_null [of m]
  by (simp add: heap_alloc16_def heap_freed16_def GET_ALLOC_def GET_def HDRP_def bind_def
      accessible_def)

section \<open>The header read of \<^verbatim>\<open>mm_realloc\<close>\<close>

text \<open>
  Claim C9. \<^verbatim>\<open>mm_realloc\<close> evaluates \<^verbatim>\<open>GET_SIZE(HDRP(ptr))\<close>, a read of the word at
  \<open>ptr - 4\<close>, before it tests \<^verbatim>\<open>ptr == NULL\<close>; a call with a null pointer reaches the
  branch that calls \<^verbatim>\<open>mm_malloc\<close> only after that read, which has to be defined for the
  call to return.

  In every heap and for every size, the call with the null pointer ends in the fault of
  the read at \<open>0 - 4\<close>: that address is never inside the region. More generally, for any
  pointer, a fault of the header read is the result of the whole call, whatever the
  pointer and the size are.
\<close>

theorem realloc_reads_header_before_null_test:
  "mm_realloc s 0 n = Some (Inl (BadRead (0 - WSIZE)))
   \<and> (GET s (HDRP ptr) = Inl e \<longrightarrow> mm_realloc s ptr n = Some (Inl e))"
  using null_header_inaccessible [of s]
  by (simp add: mm_realloc_def lift_def GET_SIZE_def GET_def bind_def HDRP_def Let_def)

theorem realloc_reads_header_before_null_test_witness:
  "GET (heap_init blank) (HDRP 0) = Inl (BadRead (0 - 4))
   \<and> mm_realloc (heap_init blank) 0 8 = Some (Inl (BadRead (0 - 4)))"
  using realloc_reads_header_before_null_test [of "heap_init blank" 8 0 "BadRead (0 - 4)"]
    null_header_inaccessible [of "heap_init blank"]
  by (simp add: GET_def HDRP_def)

section \<open>The contiguity test of the checker\<close>




section \<open>The overlap test of the checker\<close>

lemma m7: "(7::word32) = mask 3" by (simp add: mask_eq_exp_minus_1)

lemma mult8_dvd: "((x::word32) AND 7 = 0) = (8 dvd uint x)"
  using and_mask_dvd [of 3 x] by (simp add: m7)

lemma dvd8_mod: "((8::int) dvd k mod 4294967296) = (8 dvd k)"
  by (rule dvd_mod_iff) simp

lemma mult8_add: "(a::word32) AND 7 = 0 \<Longrightarrow> b AND 7 = 0 \<Longrightarrow> (a + b) AND 7 = 0"
  by (simp add: mult8_dvd uint_word_ariths dvd8_mod)

lemma mult8_sub: "(a::word32) AND 7 = 0 \<Longrightarrow> b AND 7 = 0 \<Longrightarrow> (a - b) AND 7 = 0"
  by (simp add: mult8_dvd uint_word_ariths dvd8_mod)

lemma size_mult8: "((w::word32) AND NOT 7) AND 7 = 0"
  by (simp add: and.assoc)

lemma mult8_no_wrap: assumes "(x::word32) AND 7 = 0" shows "x \<le> x + 4"
proof -
  have "8 dvd uint x" using assms by (simp add: mult8_dvd)
  then obtain k where k: "uint x = 8 * k" by (auto elim: dvdE)
  have "uint x < 2 ^ 32" using uint_lt2p [of x] by simp
  then have "k < 536870912" using k by simp
  then have "uint x + 4 < 2 ^ 32" using k by simp
  then show ?thesis by (simp add: no_olen_add)
qed

lemma overlap_test_aligned:
  assumes "bp AND 7 = 0" "overlap_test s bp st = Inr st'"
  shows "st' = st"
proof -
  obtain check out where st: "st = (check, out)" by (cases st)
  from assms(2) obtain w where w: "GET s (HDRP bp) = Inr w"
    by (cases "GET s (HDRP bp)") (auto simp: st overlap_test_def FTRP_def GET_SIZE_def bind_def)
  let ?x = "bp + (w AND NOT 7) - 8"
  have "?x AND 7 = 0" using assms(1) by (intro mult8_sub mult8_add size_mult8) simp_all
  then have "?x \<le> ?x + 4" by (rule mult8_no_wrap)
  then have "\<not> (bp + (w AND NOT 7) - 4 < ?x)" by (simp add: not_less algebra_simps)
  then show ?thesis using assms(2) w
    by (simp add: st overlap_test_def FTRP_def NEXT_BLKP_def GET_SIZE_def bind_def HDRP_def)
qed

lemma listed_tests_out:
  assumes "bind (alloc_test s bp (check, out)) (contiguous_test s bp) = Inr (c1, o1)"
  shows "set o1 \<subseteq> set out \<union> {NotFree, Contiguous}"
  using assms
  by (auto simp: alloc_test_def contiguous_test_def bind_def split: sum.splits if_splits)

lemma check_list_no_overlap_aux:
  assumes "check_list s bp st = Some r"
  shows "\<forall>st'. r = Inr st' \<longrightarrow> Overlapping \<notin> set (snd (snd st))
           \<longrightarrow> Overlapping \<notin> set (snd (snd st'))"
proof (rule check_list.raw_induct [OF _ assms], goal_cases)
  case (1 f s bp st r)
  show ?case
  proof (cases "bp = 0")
    case True
    with 1(2) show ?thesis by auto
  next
    case False
    obtain check numcount out where st: "st = (check, numcount, out)" by (cases st)
    show ?thesis
    proof (intro allI impI)
      fix st'
      assume r: "r = Inr st'" and o: "Overlapping \<notin> set (snd (snd st))"
      from 1(2) False st r obtain c1 o1 np where
        t: "bind (alloc_test s bp (check, out)) (contiguous_test s bp) = Inr (c1, o1)"
        and n: "GET_NPTR s bp = Inr np"
        and rec: "f s np (c1, numcount + 1, o1) = Some (Inr st')"
        by (auto split: sum.splits)
      from listed_tests_out [OF t] o st have "Overlapping \<notin> set o1" by auto
      with 1(1) [OF rec] show "Overlapping \<notin> set (snd (snd st'))" by simp
    qed
  qed
qed

lemma check_list_no_overlap:
  "check_list s bp st = Some (Inr st') \<Longrightarrow> Overlapping \<notin> set (snd (snd st))
     \<Longrightarrow> Overlapping \<notin> set (snd (snd st'))"
  using check_list_no_overlap_aux by blast

lemma check_lists_no_overlap:
  "check_lists s k st = Some (Inr st') \<Longrightarrow> Overlapping \<notin> set (snd (snd st))
     \<Longrightarrow> Overlapping \<notin> set (snd (snd st'))"
proof (induction s k st rule: check_lists.induct)
  case (1 s seglistnum st)
  show ?case
  proof (cases "seglistnum < numlists")
    case False
    with 1(2,3) show ?thesis by (simp add: check_lists.simps)
  next
    case True
    from 1(2) True obtain b st1 where
      g: "GETfreelistp s seglistnum = Inr b" and c: "check_list s b st = Some (Inr st1)"
      and rec: "check_lists s (seglistnum + 1) st1 = Some (Inr st')"
      by (subst (asm) check_lists.simps) (auto split: sum.splits option.splits)
    from check_list_no_overlap [OF c] 1(3) have "Overlapping \<notin> set (snd (snd st1))" by simp
    with 1(1) [OF True g c refl rec] show ?thesis .
  qed
qed

lemma heap_block_no_overlap:
  assumes "heap_block s bp (check, count, c, out) = Inr (nb, check', count', c', out')"
    and "bp AND 7 = 0" and "Overlapping \<notin> set out"
  shows "nb AND 7 = 0 \<and> Overlapping \<notin> set out'"
proof -
  from assms(1) obtain a st1 where
    o: "overlap_test s bp (check, out) = Inr st1"
    and m: "minsize_test s bp c st1 = Inr (check', out')"
    and n: "NEXT_BLKP s bp = Inr nb"
    by (auto simp: heap_block_def bind_def Let_def split: sum.splits prod.splits)
  from overlap_test_aligned [OF assms(2) o] have st1: "st1 = (check, out)" .
  from m st1 assms(3) have "Overlapping \<notin> set out'"
    by (auto simp: minsize_test_def bind_def split: sum.splits if_splits)
  moreover from n obtain w where "nb = bp + (w AND NOT 7)"
    by (auto simp: NEXT_BLKP_def GET_SIZE_def bind_def split: sum.splits)
  with assms(2) have "nb AND 7 = 0" by (simp only:) (rule mult8_add, assumption, rule size_mult8)
  ultimately show ?thesis by simp
qed

lemma check_heap_no_overlap_aux:
  assumes "check_heap s bp st = Some r"
  shows "\<forall>st'. r = Inr st' \<longrightarrow> bp AND 7 = 0 \<longrightarrow> Overlapping \<notin> set (snd (snd (snd st)))
     \<longrightarrow> Overlapping \<notin> set (snd (snd (snd st')))"
proof (rule check_heap.raw_induct [OF _ assms], goal_cases)
  case (1 f s bp st r)
  obtain check count c out where st: "st = (check, count, c, out)" by (cases st)
  show ?case
  proof (intro allI impI)
    fix st'
    assume r: "r = Inr st'" and al: "bp AND 7 = 0"
      and o: "Overlapping \<notin> set (snd (snd (snd st)))"
    from 1(2) r obtain sz where sz: "GET_SIZE s (HDRP bp) = Inr sz"
      by (auto split: sum.splits)
    show "Overlapping \<notin> set (snd (snd (snd st')))"
    proof (cases "sz = 0")
      case True
      with 1(2) sz r o show ?thesis by simp
    next
      case False
      with 1(2) sz r st obtain nb c1 n1 k1 o1 where
        hb: "heap_block s bp (check, count, c, out) = Inr (nb, c1, n1, k1, o1)"
        and rec: "f s nb (c1, n1, k1, o1) = Some (Inr st')"
        by (auto split: sum.splits)
      from heap_block_no_overlap [OF hb al] o st have "nb AND 7 = 0" "Overlapping \<notin> set o1"
        by simp_all
      with 1(1) [OF rec] show ?thesis by simp
    qed
  qed
qed

lemma check_heap_no_overlap:
  "check_heap s bp st = Some (Inr st') \<Longrightarrow> bp AND 7 = 0
     \<Longrightarrow> Overlapping \<notin> set (snd (snd (snd st)))
     \<Longrightarrow> Overlapping \<notin> set (snd (snd (snd st')))"
  using check_heap_no_overlap_aux by blast

lemma mm_check_no_overlap:
  assumes "heap_listp s AND 7 = 0" "mm_check s = Some (Inr (r, out))"
  shows "Overlapping \<notin> set out"
proof -
  from assms(2) obtain check numcount out0 check1 count c out1 where
    l: "check_lists s 0 (1, 0, []) = Some (Inr (check, numcount, out0))"
    and h: "check_heap s (heap_listp s) (check, 0, 0, out0) = Some (Inr (check1, count, c, out1))"
    and out: "out = (if count \<noteq> numcount then out1 @ [CountMismatch] else out1)"
    by (auto simp: mm_check_def bindo_def lift_def Let_def split: option.splits sum.splits if_splits)
  from check_lists_no_overlap [OF l] have "Overlapping \<notin> set out0" by simp
  with check_heap_no_overlap [OF h] assms(1)
  have "Overlapping \<notin> set out1" by simp
  with out show ?thesis by simp
qed


text \<open>
  Claim C10. For a block pointer \<open>bp\<close> with a readable header, \<^verbatim>\<open>FTRP(bp)\<close> equals
  \<^verbatim>\<open>HDRP(NEXT_BLKP(bp)) - WSIZE\<close>, since both are computed from the same header size; so
  the overlap condition \<^verbatim>\<open>FTRP(blockpointer) > HDRP(NEXT_BLKP(blockpointer))\<close> of the
  checker is false and its overlap message is never printed, whatever the heap holds.

  Addresses are 32-bit words, so the comparison is between \<open>x\<close> and \<open>x + 4\<close> modulo
  \<open>2^32\<close>. The block pointers of the heap walk differ from \<^verbatim>\<open>heap_listp\<close> by multiples of
  8, and \<^verbatim>\<open>heap_listp\<close> is a multiple of 8 whenever the base of the region is; then \<open>x\<close>
  is a multiple of 8 and \<open>x + 4\<close> cannot wrap around. Under that alignment the test
  changes nothing, and no run of the checker prints the overlap message.
\<close>

theorem overlap_branch_unreachable:
  "(FTRP s bp = Inr f \<longrightarrow> NEXT_BLKP s bp = Inr nb \<longrightarrow> f = HDRP nb - WSIZE)
   \<and> (bp AND 7 = 0 \<longrightarrow> overlap_test s bp st = Inr st' \<longrightarrow> st' = st)
   \<and> (heap_listp s AND 7 = 0 \<longrightarrow> mm_check s = Some (Inr (r, out)) \<longrightarrow> Overlapping \<notin> set out)"
proof (intro conjI impI)
  assume "FTRP s bp = Inr f" and "NEXT_BLKP s bp = Inr nb"
  then show "f = HDRP nb - WSIZE"
    by (auto simp: FTRP_def NEXT_BLKP_def HDRP_def bind_def split: sum.splits)
next
  assume "bp AND 7 = 0" and "overlap_test s bp st = Inr st'"
  then show "st' = st" by (rule overlap_test_aligned)
next
  assume "heap_listp s AND 7 = 0" and "mm_check s = Some (Inr (r, out))"
  then show "Overlapping \<notin> set out" by (rule mm_check_no_overlap)
qed

theorem overlap_branch_unreachable_witness:
  "FTRP (heap_init blank) 0x10040 = Inr 0x10058
   \<and> NEXT_BLKP (heap_init blank) 0x10040 = Inr 0x10060
   \<and> (0x10058 :: addr) = HDRP 0x10060 - WSIZE
   \<and> (0x10040 :: addr) AND 7 = 0
   \<and> overlap_test (heap_init blank) 0x10040 (1, []) = Inr (1, [])
   \<and> heap_listp (heap_init blank) AND 7 = 0
   \<and> mm_check (heap_init blank) = Some (Inr (1, []))
   \<and> Overlapping \<notin> set []"
proof -
  have a: "FTRP (heap_init blank) 0x10040 = Inr 0x10058"
    and b: "NEXT_BLKP (heap_init blank) 0x10040 = Inr 0x10060"
    and c: "(0x10040 :: addr) AND 7 = 0"
    and d: "overlap_test (heap_init blank) 0x10040 (1, []) = Inr (1, [])"
    and e: "heap_listp (heap_init blank) AND 7 = 0"
    by (simp_all add: macros heap_init_def overlap_test_def)
  note f = mm_check_init [of blank]
  from overlap_branch_unreachable
    [of "heap_init blank" "0x10040" "0x10058" "0x10060" "(1, [])" "(1, [])" 1 "[]"]
    a b c d e f
  show ?thesis by simp
qed

section \<open>The protocol of \<^verbatim>\<open>mm_malloc\<close>\<close>

lemma bindE:
  assumes "bind m f = Inr y"
  obtains x where "m = Inr x" and "f x = Inr y"
  using assms by (cases m) (simp_all add: bind_def)

lemma same_region_refl [simp]: "same_region s s"
  by (simp add: same_region_def)

lemma same_region_trans: "same_region s s1 \<Longrightarrow> same_region s1 s2 \<Longrightarrow> same_region s s2"
  by (simp add: same_region_def)

lemma accessible_same_region: "same_region s s' \<Longrightarrow> accessible s' a = accessible s a"
  by (simp add: same_region_def accessible_def)

lemma PUT_same_region: "PUT s a v = Inr s' \<Longrightarrow> same_region s s'"
  by (auto simp: PUT_def same_region_def split: if_splits)

lemma PUT_accessible: "PUT s a v = Inr s' \<Longrightarrow> accessible s a"
  by (auto simp: PUT_def split: if_splits)

lemma GET_accessible: "GET s a = Inr v \<Longrightarrow> accessible s a"
  by (auto simp: GET_def split: if_splits)

lemma accessible_nonnull: "accessible s a \<Longrightarrow> region_base s \<noteq> 0 \<Longrightarrow> a \<noteq> 0"
  by (auto simp: accessible_def unat_eq_0)

lemma header_nonnull: "accessible s (HDRP bp) \<Longrightarrow> bp \<noteq> 0"
  using null_header_inaccessible [of s] by (auto simp: HDRP_def)

lemma SET_same_region:
  "SET_NPTR s bp v = Inr s' \<Longrightarrow> same_region s s'"
  "SET_PPTR s bp v = Inr s' \<Longrightarrow> same_region s s'"
  "SETfreelistp s k v = Inr s' \<Longrightarrow> same_region s s'"
  by (auto simp: SET_NPTR_def SET_PPTR_def SETfreelistp_def dest: PUT_same_region)

lemma ADD_free_same_region:
  assumes "ADD_free s bp sz = Inr s'"
  shows "same_region s s'"
  using assms unfolding ADD_free_def Let_def
  by (auto elim!: bindE split: if_splits dest!: SET_same_region simp: same_region_def)

lemma ADD_free_accessible:
  assumes "ADD_free s bp sz = Inr s'"
  shows "accessible s bp"
  using assms unfolding ADD_free_def Let_def
  by (auto elim!: bindE split: if_splits simp: SET_PPTR_def
      dest!: SET_same_region(1,3) PUT_accessible accessible_same_region)

lemma deletefree_same_region:
  assumes "deletefree s bp = Inr s'"
  shows "same_region s s'"
  using assms unfolding deletefree_def Let_def
  by (auto elim!: bindE split: if_splits dest!: SET_same_region simp: same_region_def)

lemma deletefree_accessible:
  assumes "deletefree s bp = Inr s'"
  shows "accessible s (HDRP bp)"
  using assms unfolding deletefree_def Let_def GET_SIZE_def
  by (auto elim!: bindE dest: GET_accessible)

lemma macro_accessible:
  "GET_SIZE s a = Inr v \<Longrightarrow> accessible s a"
  "GET_ALLOC s a = Inr v \<Longrightarrow> accessible s a"
  by (auto simp: GET_SIZE_def GET_ALLOC_def elim!: bindE dest: GET_accessible)

lemma place_result:
  assumes "place s bp asize = Inr (s', r)"
  shows "r = bp \<and> same_region s s'"
  using assms unfolding place_def
  by (auto elim!: bindE split: if_splits
      dest!: PUT_same_region deletefree_same_region ADD_free_same_region
      simp: same_region_def)

lemma ADD_free_result:
  "ADD_free s bp sz = Inr s' \<Longrightarrow> same_region s s' \<and> accessible s bp"
  by (simp add: ADD_free_same_region ADD_free_accessible)

lemma coalesce_result:
  assumes "coalesce s bp = Inr (s', r)"
  shows "same_region s s' \<and> accessible s r"
  using assms unfolding coalesce_def Let_def
  by (auto elim!: bindE split: if_splits
      dest!: PUT_same_region deletefree_same_region ADD_free_result
      simp: same_region_def accessible_def)

lemma mem_sbrk_cases:
  "mem_sbrk s n = (s1, bp) \<Longrightarrow>
     (unat (region_brk s) + unat n \<le> unat (region_limit s)
        \<and> s1 = s\<lparr>region_brk := region_brk s + n\<rparr> \<and> bp = region_brk s)
     \<or> (unat (region_limit s) < unat (region_brk s) + unat n \<and> s1 = s \<and> bp = - 1)"
  by (auto simp: mem_sbrk_def split: if_splits)

lemma mult8_div4:
  assumes "(x::word32) AND 7 = 0"
  shows "(x div 4) mod 2 = 0" and "x div 4 * 4 = x"
proof -
  have "8 dvd unat x" using assms and_mask_dvd_nat [of 3 x] by (simp add: m7)
  then obtain k where k: "unat x = 8 * k" by (auto elim: dvdE)
  have d: "unat (x div 4) = 2 * k" by (simp add: unat_div k)
  then have "unat ((x div 4) mod 2) = 0" by (simp add: unat_mod)
  then show "(x div 4) mod 2 = 0" by (simp add: unat_eq_0)
  have "unat x < 2 ^ 32" using unsigned_less [of x] by simp
  then have "unat (x div 4 * 4) = unat x" using d k by (simp add: unat_word_ariths)
  then show "x div 4 * 4 = x" by (simp add: word_unat_eq_iff)
qed

lemma adjusted_size_mult8: "adjusted_size n AND 7 = 0"
proof -
  have "(8 * x :: word32) AND 7 = 0" for x
    using and_mask_dvd [of 3 "8 * x"] by (simp add: m7 uint_word_ariths dvd8_mod)
  then show ?thesis by (simp add: adjusted_size_def)
qed

lemma extendsize_mult8: "max (adjusted_size n) CHUNKS AND 7 = 0"
  using adjusted_size_mult8 [of n] by (simp add: max_def)

lemma extendsize_ge16: "16 \<le> max (a::word32) CHUNKS"
  by (rule order_trans [OF _ max.cobounded2]) simp

lemma extend_heap_request:
  assumes "x AND 7 = 0" "16 \<le> x"
  shows "extend_heap s (x div WSIZE) =
     (case mem_sbrk s x of (s1, bp) \<Rightarrow>
      if bp = - 1 then Inr (s1, 0)
      else
        bind (PUT s1 (HDRP bp) (PACK x 0)) (\<lambda>s2.
        bind (FTRP s2 bp) (\<lambda>f.
        bind (PUT s2 f (PACK x 0)) (\<lambda>s3.
        bind (NEXT_BLKP s3 bp) (\<lambda>nb.
        bind (PUT s3 (HDRP nb) (PACK 0 1)) (\<lambda>s4.
        coalesce s4 bp))))))"
proof -
  have "max x 16 = x" using assms(2) by (simp add: max_def)
  then show ?thesis
    using mult8_div4 [OF assms(1)] by (simp add: extend_heap_def Let_def split: prod.split)
qed

lemma extend_heap_refused:
  assumes "x AND 7 = 0" "16 \<le> x" "unat (region_limit s) < unat (region_brk s) + unat x"
  shows "extend_heap s (x div WSIZE) = Inr (s, 0)"
  using assms(3) by (simp add: extend_heap_request [OF assms(1,2)] mem_sbrk_def)

lemma extend_heap_granted:
  assumes "x AND 7 = 0" "16 \<le> x" "unat (region_brk s) + unat x \<le> unat (region_limit s)"
    and "extend_heap s (x div WSIZE) = Inr (s', r)" and "region_base s \<noteq> 0"
  shows "region_brk s' = region_brk s + x \<and> r \<noteq> 0"
proof -
  have "unat (region_limit s) < 2 ^ 32" using unsigned_less [of "region_limit s"] by simp
  moreover have "0 < unat x" using assms(2) by (simp add: word_le_nat_alt)
  ultimately have "unat (region_brk s) \<noteq> 4294967295" using assms(3) by simp
  then have "region_brk s \<noteq> 4294967295" by auto
  moreover have "(- 1 :: word32) = 4294967295" by simp
  ultimately have ne: "region_brk s \<noteq> - 1" by metis
  let ?s1 = "s\<lparr>region_brk := region_brk s + x\<rparr>"
  from assms(4) ne assms(3) obtain s4 where
    c: "coalesce s4 (region_brk s) = Inr (s', r)" and r4: "same_region ?s1 s4"
    unfolding extend_heap_request [OF assms(1,2)] mem_sbrk_def
    by (auto elim!: bindE dest!: PUT_same_region simp: same_region_def)
  from coalesce_result [OF c] have "same_region s4 s'" "accessible s4 r" by simp_all
  with r4 assms(5) show ?thesis
    by (auto simp: same_region_def accessible_def unat_eq_0)
qed

lemma adjusted_size_in_range:
  assumes "unat n + 15 < 2 ^ 32"
  shows "unat (adjusted_size n) = asize_spec (unat n)"
proof (cases "n \<le> 8")
  case True
  then have "unat n \<le> 8" by (simp add: word_le_nat_alt)
  with True show ?thesis by (simp add: adjusted_size_def asize_spec_def)
next
  case False
  then have n8: "\<not> unat n \<le> 8" by (simp add: word_le_nat_alt)
  have a: "unat (n + 8 + 7) = unat n + 15" using assms by (simp add: unat_word_ariths)
  have "8 * ((unat n + 15) div 8) \<le> unat n + 15" by simp
  with assms have "8 * ((unat n + 15) div 8) < 2 ^ 32" by linarith
  then have "unat (8 * ((n + 8 + 7) div 8)) = 8 * ((unat n + 15) div 8)"
    by (simp add: unat_word_ariths unat_div a)
  with False n8 show ?thesis
    by (simp add: adjusted_size_def asize_spec_def round_up_to_8_def add.assoc)
qed

lemma mm_malloc_null_only_refused:
  assumes "n \<noteq> 0" "region_base s \<noteq> 0" "mm_malloc s n = Some (Inr (s', 0))"
  shows "find_fit s (adjusted_size n) = Some (Inr 0)
     \<and> unat (region_limit s) < unat (region_brk s) + unat (max (adjusted_size n) CHUNKS)
     \<and> s' = s"
proof -
  let ?a = "adjusted_size n" and ?x = "max (adjusted_size n) CHUNKS"
  have x8: "?x AND 7 = 0" by (rule extendsize_mult8)
  have x16: "16 \<le> ?x" by (rule extendsize_ge16)
  from assms(1,3) obtain bp where ff: "find_fit s ?a = Some (Inr bp)"
    by (auto simp: mm_malloc_def Let_def bindo_def lift_def split: option.splits sum.splits)
  have bp0: "bp = 0"
  proof (rule ccontr)
    assume "bp \<noteq> 0"
    with assms(1,3) ff have "place s bp ?a = Inr (s', 0)"
      by (simp add: mm_malloc_def Let_def bindo_def lift_def)
    with place_result [of s bp ?a s' 0] \<open>bp \<noteq> 0\<close> show False by simp
  qed
  with assms(1,3) ff obtain s1 b1 where eh: "extend_heap s (?x div WSIZE) = Inr (s1, b1)"
    and fin: "(if b1 = 0 then Inr (s1, 0) else place s1 b1 ?a) = Inr (s', 0)"
    by (auto simp: mm_malloc_def Let_def bindo_def lift_def split: sum.splits if_splits)
  have b10: "b1 = 0"
  proof (rule ccontr)
    assume "b1 \<noteq> 0"
    with fin have "place s1 b1 ?a = Inr (s', 0)" by simp
    with place_result [of s1 b1 ?a s' 0] \<open>b1 \<noteq> 0\<close> show False by simp
  qed
  have refused: "unat (region_limit s) < unat (region_brk s) + unat ?x"
  proof (rule ccontr)
    assume "\<not> ?thesis"
    then have "unat (region_brk s) + unat ?x \<le> unat (region_limit s)" by simp
    from extend_heap_granted [OF x8 x16 this eh assms(2)] b10 show False by simp
  qed
  from extend_heap_refused [OF x8 x16 refused] eh have "s1 = s" by simp
  with fin b10 have "s' = s" by simp
  with ff bp0 refused show ?thesis by simp
qed

text \<open>
  The steps of \<^verbatim>\<open>mm_malloc\<close>. A request of 0 bytes returns null. As long as \<open>n + 15\<close>
  does not overflow, the adjusted size is that of the specification. A hit of
  \<^verbatim>\<open>find_fit\<close> is placed. On a miss the heap is extended: a provider that refuses leaves
  the heap as it is, with result null; a provider that grants moves the break by exactly
  \<open>max(asize, CHUNKS)\<close> bytes and the new block is not null. A null result for \<open>n \<noteq> 0\<close>,
  in a region that does not contain the null address, means that the search missed and
  the provider refused, and the heap is unchanged.
\<close>

lemma mm_malloc_steps:
  "mm_malloc s 0 = Some (Inr (s, 0))
   \<and> (unat n + 15 < 2 ^ 32 \<longrightarrow> unat (adjusted_size n) = asize_spec (unat n))
   \<and> (n \<noteq> 0 \<longrightarrow> find_fit s (adjusted_size n) = Some (Inr bp) \<longrightarrow> bp \<noteq> 0 \<longrightarrow>
        mm_malloc s n = Some (place s bp (adjusted_size n)))
   \<and> (n \<noteq> 0 \<longrightarrow> find_fit s (adjusted_size n) = Some (Inr 0) \<longrightarrow>
        mm_malloc s n =
          Some (bind (extend_heap s (max (adjusted_size n) CHUNKS div WSIZE)) (\<lambda>(s1, b1).
                if b1 = 0 then Inr (s1, 0) else place s1 b1 (adjusted_size n))))
   \<and> (unat (region_limit s) < unat (region_brk s) + unat (max (adjusted_size n) CHUNKS) \<longrightarrow>
        extend_heap s (max (adjusted_size n) CHUNKS div WSIZE) = Inr (s, 0))
   \<and> (region_base s \<noteq> 0 \<longrightarrow>
        unat (region_brk s) + unat (max (adjusted_size n) CHUNKS) \<le> unat (region_limit s) \<longrightarrow>
        extend_heap s (max (adjusted_size n) CHUNKS div WSIZE) = Inr (s2, b2) \<longrightarrow>
        region_brk s2 = region_brk s + max (adjusted_size n) CHUNKS \<and> b2 \<noteq> 0)
   \<and> (n \<noteq> 0 \<longrightarrow> region_base s \<noteq> 0 \<longrightarrow> mm_malloc s n = Some (Inr (s', 0)) \<longrightarrow>
        find_fit s (adjusted_size n) = Some (Inr 0)
        \<and> unat (region_limit s) < unat (region_brk s) + unat (max (adjusted_size n) CHUNKS)
        \<and> s' = s)"
proof -
  let ?x = "max (adjusted_size n) CHUNKS"
  have x8: "?x AND 7 = 0" by (rule extendsize_mult8)
  have x16: "16 \<le> ?x" by (rule extendsize_ge16)
  have 1: "mm_malloc s 0 = Some (Inr (s, 0))" by (simp add: mm_malloc_def)
  have 3: "unat n + 15 < 2 ^ 32 \<longrightarrow> unat (adjusted_size n) = asize_spec (unat n)"
    using adjusted_size_in_range by blast
  have 4: "n \<noteq> 0 \<longrightarrow> find_fit s (adjusted_size n) = Some (Inr bp) \<longrightarrow> bp \<noteq> 0 \<longrightarrow>
        mm_malloc s n = Some (place s bp (adjusted_size n))"
    by (simp add: mm_malloc_def Let_def bindo_def lift_def)
  have 5: "n \<noteq> 0 \<longrightarrow> find_fit s (adjusted_size n) = Some (Inr 0) \<longrightarrow>
        mm_malloc s n =
          Some (bind (extend_heap s (?x div WSIZE)) (\<lambda>(s1, b1).
                if b1 = 0 then Inr (s1, 0) else place s1 b1 (adjusted_size n)))"
    by (auto simp: mm_malloc_def Let_def bindo_def lift_def bind_def split: sum.splits)
  have 6: "unat (region_limit s) < unat (region_brk s) + unat ?x \<longrightarrow>
        extend_heap s (?x div WSIZE) = Inr (s, 0)"
    using extend_heap_refused [OF x8 x16] by blast
  have 7: "region_base s \<noteq> 0 \<longrightarrow> unat (region_brk s) + unat ?x \<le> unat (region_limit s) \<longrightarrow>
        extend_heap s (?x div WSIZE) = Inr (s2, b2) \<longrightarrow>
        region_brk s2 = region_brk s + ?x \<and> b2 \<noteq> 0"
    using extend_heap_granted [OF x8 x16] by blast
  have 8: "n \<noteq> 0 \<longrightarrow> region_base s \<noteq> 0 \<longrightarrow> mm_malloc s n = Some (Inr (s', 0)) \<longrightarrow>
        find_fit s (adjusted_size n) = Some (Inr 0)
        \<and> unat (region_limit s) < unat (region_brk s) + unat ?x \<and> s' = s"
    using mm_malloc_null_only_refused by blast
  from 1 3 4 5 6 7 8 show ?thesis by blast
qed

lemma malloc_overflow:
  "mm_malloc (heap_init m) 0xFFFFFFF9 = Some (Inr (heap_tiny m, 65600))"
  by (simp add: operations macros heap_init_def heap_tiny_def)

lemma mm_check_tiny: "mm_check (heap_tiny m) = Some (Inr (0, [TooSmall]))"
  by (simp add: checker macros heap_tiny_def)

text \<open>
  Claim C3. \<^verbatim>\<open>allocate(n)\<close> returns null when \<open>n = 0\<close>; otherwise it serves the adjusted
  size, 16 when \<open>n \<le> 8\<close> and \<open>n + 8\<close> rounded up to a multiple of 8 when \<open>n > 8\<close>; it
  searches the free lists first and, on a miss, extends the heap by the words of
  \<open>max(asize, CHUNKSIZE)\<close> bytes; it returns null only when the provider refuses growth.

  On the code the adjusted size fails for the largest requests: \<open>size + 15\<close> is computed
  in 32 bits and wraps around for \<open>n \<ge> 0xFFFFFFF1\<close>. For \<open>n = 0xFFFFFFF9\<close> the size of
  the specification is \<open>2^32 + 8\<close>, the code computes 8. On the heap of \<^verbatim>\<open>mm_init\<close>, for any
  initial memory contents, \<^verbatim>\<open>mm_malloc(0xFFFFFFF9)\<close> extends the heap by 32 bytes and
  returns the block at \<open>0x10040\<close> with size 8 in its header, below the minimum block size
  of 16 bytes; the footer of that block lies in the first word of its payload, and the
  checker then returns 0 with the message of its size test.
\<close>

theorem mm_malloc_size_overflow:
  "unat (0xFFFFFFF9 :: word32) = 4294967289
   \<and> asize_spec 4294967289 = 4294967304
   \<and> adjusted_size 0xFFFFFFF9 = 8
   \<and> mm_check (heap_init m) = Some (Inr (1, []))
   \<and> mm_malloc (heap_init m) 0xFFFFFFF9 = Some (Inr (heap_tiny m, 0x10040))
   \<and> region_brk (heap_tiny m) = region_brk (heap_init m) + 32
   \<and> GET (heap_tiny m) (HDRP 0x10040) = Inr (PACK 8 1)
   \<and> GET (heap_tiny m) 0x10040 = Inr (PACK 8 1)
   \<and> mm_check (heap_tiny m) = Some (Inr (0, [TooSmall]))"
proof -
  have "asize_spec 4294967289 = 4294967304" and "adjusted_size 0xFFFFFFF9 = 8"
    by (simp_all add: asize_spec_def round_up_to_8_def adjusted_size_def)
  moreover have "region_brk (heap_tiny m) = region_brk (heap_init m) + 32"
    and "GET (heap_tiny m) (HDRP 0x10040) = Inr (PACK 8 1)"
    and "GET (heap_tiny m) 0x10040 = Inr (PACK 8 1)"
    by (simp_all add: heap_tiny_def heap_init_def GET_def HDRP_def PACK_def accessible_def)
  ultimately show ?thesis
    using mm_check_init [of m] malloc_overflow [of m] mm_check_tiny [of m] by simp
qed

section \<open>Heap extension\<close>

lemma even_times4_mult8:
  assumes "(w::word32) mod 2 = 0"
  shows "w * 4 AND 7 = 0"
proof -
  have "unat w mod 2 = 0" using assms by (simp add: word_unat_eq_iff unat_mod)
  then obtain k where k: "unat w = 2 * k" by auto
  have "uint w = 2 * int k" using k by (simp add: uint_nat)
  then have "8 dvd uint w * 4" by simp
  then show ?thesis by (simp add: mult8_dvd uint_word_ariths dvd8_mod)
qed

lemma succ_odd_even:
  assumes "(w::word32) mod 2 \<noteq> 0"
  shows "(w + 1) mod 2 = 0"
proof -
  have o: "unat w mod 2 = 1" using assms by (simp add: word_unat_eq_iff unat_mod)
  have "unat (w + 1) = (unat w + 1) mod 4294967296" by (simp add: unat_word_ariths)
  then have "unat (w + 1) mod 2 = (unat w + 1) mod 2"
    by (simp add: mod_mod_cancel)
  with o have "unat (w + 1) mod 2 = 0" by (simp add: mod_Suc)
  then show ?thesis by (simp add: word_unat_eq_iff unat_mod)
qed

lemma request_mult8:
  "(if words mod 2 \<noteq> 0 then (words + 1) * WSIZE else words * WSIZE) AND 7 = (0::word32)"
  using even_times4_mult8 [of words] even_times4_mult8 [OF succ_odd_even, of words] by simp

lemma and_not_self:
  assumes "(n::word32) AND 7 = 0"
  shows "n AND NOT 7 = n"
proof -
  have "n = n AND (7 OR NOT 7)" by (simp only: bit.disj_cancel_right and.right_neutral)
  also have "\<dots> = (n AND 7) OR (n AND NOT 7)" by (simp only: bit.conj_disj_distrib)
  also have "\<dots> = n AND NOT 7" by (simp only: assms or.left_neutral)
  finally show ?thesis by simp
qed

lemma PACK_bits:
  assumes "(n::word32) AND 7 = 0"
  shows "(n OR 0) AND NOT 7 = n" and "(n OR 1) AND NOT 7 = n"
    and "(n OR 0) AND 1 = 0" and "(n OR 1) AND 1 = 1"
proof -
  show "(n OR 0) AND NOT 7 = n" using and_not_self [OF assms] by simp
  have "(n OR 1) AND NOT 7 = (n AND NOT 7) OR (1 AND NOT 7)"
    by (simp only: bit.conj_disj_distrib2)
  also have "\<dots> = n" using and_not_self [OF assms] by simp
  finally show "(n OR 1) AND NOT 7 = n" .
  have "n AND 1 = (n AND 7) AND 1" by (simp add: and.assoc)
  then have n1: "n AND 1 = 0" using assms by simp
  then show "(n OR 0) AND 1 = 0" by simp
  have "(n OR 1) AND 1 = (n AND 1) OR (1 AND 1)" by (simp only: bit.conj_disj_distrib2)
  then show "(n OR 1) AND 1 = 1" using n1 by simp
qed

lemma GET_PUT: "PUT s a v = Inr s' \<Longrightarrow> GET s' b = (if b = a then Inr v else GET s b)"
  by (auto simp: PUT_def GET_def accessible_def split: if_splits)

lemma request_word:
  "(if words mod 2 \<noteq> 0 then (words + 1) * WSIZE else words * WSIZE)
     = (of_nat (request_spec words) :: word32)"
proof -
  have "(words mod 2 \<noteq> 0) = odd (unat words)"
    by (simp add: word_unat_eq_iff unat_mod odd_iff_mod_2_eq_one)
  then show ?thesis by (simp add: request_spec_def)
qed

lemma request_unat:
  assumes "request_spec words < 2 ^ 32"
  shows "unat (of_nat (request_spec words) :: word32) = request_spec words"
  using assms by (simp add: unsigned_of_nat take_bit_eq_mod)

lemma extend_heap_tags:
  assumes "16 \<le> n" "n AND 7 = 0"
  shows "bind (PUT s1 (HDRP bp) (PACK n 0)) (\<lambda>s2.
        bind (FTRP s2 bp) (\<lambda>f.
        bind (PUT s2 f (PACK n 0)) (\<lambda>s3.
        bind (NEXT_BLKP s3 bp) (\<lambda>nb.
        bind (PUT s3 (HDRP nb) (PACK 0 1)) (\<lambda>s4.
        coalesce s4 bp))))) =
      bind (PUT s1 (HDRP bp) (PACK n 0)) (\<lambda>s2.
        bind (PUT s2 (bp + n - DSIZE) (PACK n 0)) (\<lambda>s3.
        bind (PUT s3 (bp + n - WSIZE) (PACK 0 1)) (\<lambda>s4.
        coalesce s4 bp)))"
proof (cases "PUT s1 (HDRP bp) (PACK n 0)")
  case (Inl e)
  then show ?thesis by (simp add: bind_def)
next
  case (Inr s2)
  have f: "FTRP s2 bp = Inr (bp + n - DSIZE)"
    using GET_PUT [OF Inr, of "HDRP bp"] PACK_bits(1) [OF assms(2)]
    by (simp add: FTRP_def GET_SIZE_def bind_def PACK_def)
  show ?thesis
  proof (cases "PUT s2 (bp + n - DSIZE) (PACK n 0)")
    case (Inl e)
    with Inr f show ?thesis by (simp add: bind_def)
  next
    case s3: (Inr s3)
    have "GET s3 (HDRP bp) = Inr (PACK n 0)"
      using GET_PUT [OF s3, of "HDRP bp"] GET_PUT [OF Inr, of "HDRP bp"] by simp
    then have nb: "NEXT_BLKP s3 bp = Inr (bp + n)"
      using PACK_bits(1) [OF assms(2)]
      by (simp add: NEXT_BLKP_def GET_SIZE_def bind_def PACK_def HDRP_def)
    from Inr f s3 nb show ?thesis by (simp add: bind_def HDRP_def)
  qed
qed

lemma extend_heap_refines:
  assumes "16 \<le> request_spec words" "request_spec words < 2 ^ 32"
  shows "extend_heap s words = extend_heap_spec s words"
proof -
  define n :: word32 where "n = of_nat (request_spec words)"
  have w: "(if words mod 2 \<noteq> 0 then (words + 1) * WSIZE else words * WSIZE) = n"
    unfolding n_def by (rule request_word)
  have n8: "n AND 7 = 0" using request_mult8 [of words] by (simp only: w)
  have "unat n = request_spec words" unfolding n_def by (rule request_unat [OF assms(2)])
  with assms(1) have n16: "16 \<le> n" by (simp add: word_le_nat_alt)
  then have mx: "max n 16 = n" by (simp add: max_def)
  obtain s1 bp where sb: "mem_sbrk s n = (s1, bp)" by (cases "mem_sbrk s n")
  show ?thesis
    unfolding extend_heap_def extend_heap_spec_def Let_def w n_def [symmetric] sb mx
    using extend_heap_tags [OF n16 n8, of s1 bp] by simp
qed

lemma PUT_region: "PUT s a v = Inr s' \<Longrightarrow> region_brk s' = region_brk s"
  by (auto simp: PUT_def split: if_splits)

lemma extend_heap_spec_refused:
  assumes "unat (region_limit s) < unat (region_brk s) + request_spec words"
    and "request_spec words < 2 ^ 32"
  shows "extend_heap_spec s words = Inr (s, 0)"
  using assms(1) by (simp add: extend_heap_spec_def Let_def mem_sbrk_def request_unat [OF assms(2)])

lemma extend_heap_spec_granted:
  assumes "unat (region_brk s) + request_spec words \<le> unat (region_limit s)"
    and "16 \<le> request_spec words"
    and "extend_heap_spec s words = Inr (s', r)"
  shows "\<exists>s4. coalesce s4 (region_brk s) = Inr (s', r)
     \<and> region_brk s4 = region_brk s + of_nat (request_spec words)
     \<and> GET s4 (HDRP (region_brk s)) = Inr (PACK (of_nat (request_spec words)) 0)
     \<and> GET s4 (region_brk s + of_nat (request_spec words) - DSIZE)
         = Inr (PACK (of_nat (request_spec words)) 0)
     \<and> GET s4 (region_brk s + of_nat (request_spec words) - WSIZE) = Inr (PACK 0 1)"
proof -
  define n :: word32 where "n = of_nat (request_spec words)"
  have "unat (region_limit s) < 2 ^ 32" using unsigned_less [of "region_limit s"] by simp
  with assms(1) have lt: "request_spec words < 2 ^ 32" by linarith
  have un: "unat n = request_spec words" unfolding n_def by (rule request_unat [OF lt])
  have n8: "n AND 7 = 0" using request_mult8 [of words] by (simp only: request_word n_def)
  have n16: "16 \<le> n" using assms(2) un by (simp add: word_le_nat_alt)
  have "unat (region_brk s) < 4294967295"
    using assms(1,2) \<open>unat (region_limit s) < 2 ^ 32\<close> by simp
  then have "unat (region_brk s) \<noteq> 4294967295" by simp
  then have "region_brk s \<noteq> 4294967295" by auto
  moreover have "(- 1 :: word32) = 4294967295" by simp
  ultimately have ne: "region_brk s \<noteq> - 1" by metis
  let ?bp = "region_brk s"
  let ?s1 = "s\<lparr>region_brk := ?bp + n\<rparr>"
  from assms(1,3) ne obtain s2 s3 s4 where
    w1: "PUT ?s1 (HDRP ?bp) (PACK n 0) = Inr s2"
    and w2: "PUT s2 (?bp + n - DSIZE) (PACK n 0) = Inr s3"
    and w3: "PUT s3 (?bp + n - WSIZE) (PACK 0 1) = Inr s4"
    and c: "coalesce s4 ?bp = Inr (s', r)"
    unfolding extend_heap_spec_def Let_def n_def [symmetric] mem_sbrk_def un
    by (auto elim!: bindE)
  have n4: "n \<noteq> 4" using n8 by auto
  have n0: "n \<noteq> 0" using n16 by auto
  have d1: "HDRP ?bp \<noteq> ?bp + n - DSIZE" using n4 by (simp add: HDRP_def)
  have d2: "HDRP ?bp \<noteq> ?bp + n - WSIZE" using n0 by (simp add: HDRP_def)
  have "GET s4 (HDRP ?bp) = Inr (PACK n 0)"
    using GET_PUT [OF w3, of "HDRP ?bp"] GET_PUT [OF w2, of "HDRP ?bp"]
      GET_PUT [OF w1, of "HDRP ?bp"] d1 d2 by simp
  moreover have "GET s4 (?bp + n - DSIZE) = Inr (PACK n 0)"
    using GET_PUT [OF w3, of "?bp + n - DSIZE"] GET_PUT [OF w2, of "?bp + n - DSIZE"] by simp
  moreover have "GET s4 (?bp + n - WSIZE) = Inr (PACK 0 1)"
    using GET_PUT [OF w3, of "?bp + n - WSIZE"] by simp
  moreover have "region_brk s4 = ?bp + n"
    using PUT_region [OF w1] PUT_region [OF w2] PUT_region [OF w3] by simp
  ultimately show ?thesis using c unfolding n_def by blast
qed

lemma caller_request:
  assumes "x AND 7 = 0" "32 \<le> x"
  shows "request_spec (x div WSIZE) = unat x"
proof -
  have "8 dvd unat x" using assms(1) and_mask_dvd_nat [of 3 x] by (simp add: m7)
  then obtain k where k: "unat x = 8 * k" by (auto elim: dvdE)
  have "unat (x div 4) = 2 * k" by (simp add: unat_div k)
  then show ?thesis by (simp add: request_spec_def k)
qed

lemma extendsize_ge32: "32 \<le> max (a::word32) CHUNKS"
  by (rule max.cobounded2)

text \<open>
  Claim C5. \<^verbatim>\<open>extend_heap(words)\<close> rounds \<open>words\<close> up to even, requests exactly that many
  words, \<open>words * WSIZE\<close> bytes, from the provider and returns null when the provider
  fails; otherwise it writes a free header and footer that encode exactly that byte count
  at the returned address, writes a new epilogue header right after the block, and
  returns \<^verbatim>\<open>coalesce\<close> of the new block.

  The code is the specification's \<open>extend_heap_spec\<close> whenever the byte count is at least
  16 and fits 32 bits. A provider that refuses leaves the heap as it is, with result
  null. When the provider grants and \<^verbatim>\<open>extend_heap\<close> returns, the result is that of
  \<^verbatim>\<open>coalesce\<close> at the old break, in a heap whose break has moved by the byte count, with
  the header \<open>n|0\<close> below the old break, the footer \<open>n|0\<close> in the last but one word of the
  new bytes and the epilogue header \<open>0|1\<close> in the last word. Both call sites satisfy the
  hypotheses: \<^verbatim>\<open>mm_init\<close> passes the words of \<open>CHUNKS\<close>, 32 bytes, and \<^verbatim>\<open>mm_malloc\<close> the
  words of \<open>max(asize, CHUNKS)\<close>, a multiple of 8 that is at least 32. (Below 16 bytes
  the code would raise the size of the block to 16, \<^verbatim>\<open>MAX(size, 16)\<close>; no call does
  that.)
\<close>

theorem extend_heap_refines_spec:
  "(16 \<le> request_spec words \<longrightarrow> request_spec words < 2 ^ 32 \<longrightarrow>
      extend_heap s words = extend_heap_spec s words)
   \<and> (16 \<le> request_spec words \<longrightarrow> request_spec words < 2 ^ 32 \<longrightarrow>
        unat (region_limit s) < unat (region_brk s) + request_spec words \<longrightarrow>
        extend_heap s words = Inr (s, 0))
   \<and> (16 \<le> request_spec words \<longrightarrow>
        unat (region_brk s) + request_spec words \<le> unat (region_limit s) \<longrightarrow>
        extend_heap s words = Inr (s', r) \<longrightarrow>
        (\<exists>s4. coalesce s4 (region_brk s) = Inr (s', r)
           \<and> region_brk s4 = region_brk s + of_nat (request_spec words)
           \<and> GET s4 (HDRP (region_brk s)) = Inr (PACK (of_nat (request_spec words)) 0)
           \<and> GET s4 (region_brk s + of_nat (request_spec words) - DSIZE)
               = Inr (PACK (of_nat (request_spec words)) 0)
           \<and> GET s4 (region_brk s + of_nat (request_spec words) - WSIZE) = Inr (PACK 0 1)))
   \<and> request_spec (CHUNKS div WSIZE) = 32
   \<and> request_spec (max (adjusted_size n) CHUNKS div WSIZE) = unat (max (adjusted_size n) CHUNKS)
   \<and> 32 \<le> unat (max (adjusted_size n) CHUNKS)"
proof -
  have 1: "16 \<le> request_spec words \<longrightarrow> request_spec words < 2 ^ 32 \<longrightarrow>
      extend_heap s words = extend_heap_spec s words"
    using extend_heap_refines by blast
  have 2: "16 \<le> request_spec words \<longrightarrow> request_spec words < 2 ^ 32 \<longrightarrow>
        unat (region_limit s) < unat (region_brk s) + request_spec words \<longrightarrow>
        extend_heap s words = Inr (s, 0)"
    using extend_heap_refines [of words s] extend_heap_spec_refused [of s words] by simp
  have 3: "16 \<le> request_spec words \<longrightarrow>
        unat (region_brk s) + request_spec words \<le> unat (region_limit s) \<longrightarrow>
        extend_heap s words = Inr (s', r) \<longrightarrow>
        (\<exists>s4. coalesce s4 (region_brk s) = Inr (s', r)
           \<and> region_brk s4 = region_brk s + of_nat (request_spec words)
           \<and> GET s4 (HDRP (region_brk s)) = Inr (PACK (of_nat (request_spec words)) 0)
           \<and> GET s4 (region_brk s + of_nat (request_spec words) - DSIZE)
               = Inr (PACK (of_nat (request_spec words)) 0)
           \<and> GET s4 (region_brk s + of_nat (request_spec words) - WSIZE) = Inr (PACK 0 1))"
  proof (intro impI)
    assume a: "16 \<le> request_spec words"
      and b: "unat (region_brk s) + request_spec words \<le> unat (region_limit s)"
      and c: "extend_heap s words = Inr (s', r)"
    have "unat (region_limit s) < 2 ^ 32" using unsigned_less [of "region_limit s"] by simp
    with b have "request_spec words < 2 ^ 32" by linarith
    with a c have "extend_heap_spec s words = Inr (s', r)"
      using extend_heap_refines [of words s] by simp
    from extend_heap_spec_granted [OF b a this] show "\<exists>s4. coalesce s4 (region_brk s) = Inr (s', r)
           \<and> region_brk s4 = region_brk s + of_nat (request_spec words)
           \<and> GET s4 (HDRP (region_brk s)) = Inr (PACK (of_nat (request_spec words)) 0)
           \<and> GET s4 (region_brk s + of_nat (request_spec words) - DSIZE)
               = Inr (PACK (of_nat (request_spec words)) 0)
           \<and> GET s4 (region_brk s + of_nat (request_spec words) - WSIZE) = Inr (PACK 0 1)" .
  qed
  have 4: "request_spec (CHUNKS div WSIZE) = 32" by (simp add: request_spec_def)
  have 5: "request_spec (max (adjusted_size n) CHUNKS div WSIZE) = unat (max (adjusted_size n) CHUNKS)"
    by (rule caller_request [OF extendsize_mult8 extendsize_ge32])
  have 6: "32 \<le> unat (max (adjusted_size n) CHUNKS)"
    using extendsize_ge32 [of "adjusted_size n"] by (simp add: word_le_nat_alt)
  from 1 2 3 4 5 6 show ?thesis by blast
qed

theorem extend_heap_refines_spec_witness:
  "request_spec 8 = 32 \<and> request_spec 7 = 32
   \<and> extend_heap (heap_init blank) 8 = Inr (heap_grown32, 0x10040)
   \<and> extend_heap_spec (heap_init blank) 8 = Inr (heap_grown32, 0x10040)
   \<and> extend_heap (heap_init blank) 7 = Inr (heap_grown32, 0x10040)
   \<and> extend_heap_spec (heap_init blank) 7 = Inr (heap_grown32, 0x10040)
   \<and> unat (region_limit heap_full) < unat (region_brk heap_full) + request_spec 8
   \<and> extend_heap heap_full 8 = Inr (heap_full, 0)
   \<and> unat (region_brk (heap_init blank)) + request_spec 8 \<le> unat (region_limit (heap_init blank))
   \<and> (\<exists>s4. coalesce s4 (region_brk (heap_init blank)) = Inr (heap_grown32, 0x10040)
         \<and> region_brk s4 = region_brk (heap_init blank) + of_nat (request_spec 8)
         \<and> GET s4 (HDRP (region_brk (heap_init blank))) = Inr (PACK (of_nat (request_spec 8)) 0)
         \<and> GET s4 (region_brk (heap_init blank) + of_nat (request_spec 8) - DSIZE)
             = Inr (PACK (of_nat (request_spec 8)) 0)
         \<and> GET s4 (region_brk (heap_init blank) + of_nat (request_spec 8) - WSIZE)
             = Inr (PACK 0 1))"
proof -
  have r8: "request_spec 8 = 32" and r7: "request_spec 7 = 32"
    by (simp_all add: request_spec_def)
  have e8: "extend_heap (heap_init blank) 8 = Inr (heap_grown32, 0x10040)"
    and e7: "extend_heap (heap_init blank) 7 = Inr (heap_grown32, 0x10040)"
    by (simp_all add: operations macros heap_init_def heap_grown32_def)
  have lim: "unat (region_limit heap_full) < unat (region_brk heap_full) + request_spec 8"
    and room: "unat (region_brk (heap_init blank)) + request_spec 8
        \<le> unat (region_limit (heap_init blank))"
    by (simp_all add: r8 heap_full_def heap_init_def)
  note t8 = extend_heap_refines_spec [of 8 "heap_init blank" heap_grown32 "0x10040" 0]
  note t7 = extend_heap_refines_spec [of 7 "heap_init blank" heap_grown32 "0x10040" 0]
  note tf = extend_heap_refines_spec [of 8 heap_full heap_full 0 0]
  have h8: "16 \<le> request_spec 8" "request_spec 8 < 2 ^ 32"
    and h7: "16 \<le> request_spec 7" "request_spec 7 < 2 ^ 32"
    by (simp_all add: r8 r7)
  from t8 h8 e8 have s8: "extend_heap_spec (heap_init blank) 8 = Inr (heap_grown32, 0x10040)"
    by metis
  from t7 h7 e7 have s7: "extend_heap_spec (heap_init blank) 7 = Inr (heap_grown32, 0x10040)"
    by metis
  from tf h8 lim have f: "extend_heap heap_full 8 = Inr (heap_full, 0)" by blast
  from t8 h8 room e8
  have g: "\<exists>s4. coalesce s4 (region_brk (heap_init blank)) = Inr (heap_grown32, 0x10040)
         \<and> region_brk s4 = region_brk (heap_init blank) + of_nat (request_spec 8)
         \<and> GET s4 (HDRP (region_brk (heap_init blank))) = Inr (PACK (of_nat (request_spec 8)) 0)
         \<and> GET s4 (region_brk (heap_init blank) + of_nat (request_spec 8) - DSIZE)
             = Inr (PACK (of_nat (request_spec 8)) 0)
         \<and> GET s4 (region_brk (heap_init blank) + of_nat (request_spec 8) - WSIZE)
             = Inr (PACK 0 1)"
    by blast
  from r8 r7 e8 s8 e7 s7 lim f room g show ?thesis by blast
qed

section \<open>The search of \<^verbatim>\<open>find_fit\<close>\<close>

lemma find_fit_loop_chain:
  "chain s h xs \<Longrightarrow> find_fit_loop s h sz = Some (find_fit_spec s sz xs)"
proof (induction xs arbitrary: h)
  case Nil
  then show ?case by (simp add: find_fit_loop.simps)
next
  case (Cons b bs)
  from Cons.prems obtain np where h: "h = b" "b \<noteq> 0" and n: "GET_NPTR s b = Inr np"
    and c: "chain s np bs"
    by (auto split: sum.splits)
  from Cons.IH [OF c] h n show ?case
    by (subst find_fit_loop.simps) (simp add: bind_def split: sum.splits)
qed

lemma find_fit_spec_first:
  "find_fit_spec s sz xs = Inr r \<Longrightarrow>
     (r = 0 \<and> (\<forall>b\<in>set xs. \<exists>w. GET_SIZE s (HDRP b) = Inr w \<and> w < sz))
     \<or> (\<exists>ys zs w. xs = ys @ r # zs \<and> GET_SIZE s (HDRP r) = Inr w \<and> sz \<le> w
            \<and> (\<forall>b\<in>set ys. \<exists>v. GET_SIZE s (HDRP b) = Inr v \<and> v < sz))"
proof (induction xs)
  case Nil
  then show ?case by simp
next
  case (Cons b bs)
  from Cons.prems obtain bsz where b: "GET_SIZE s (HDRP b) = Inr bsz"
    and r: "(if sz \<le> bsz then Inr b else find_fit_spec s sz bs) = Inr r"
    by (auto elim: bindE)
  show ?case
  proof (cases "sz \<le> bsz")
    case True
    with r b have "b # bs = [] @ r # bs \<and> GET_SIZE s (HDRP r) = Inr bsz \<and> sz \<le> bsz"
      by simp
    then show ?thesis by fastforce
  next
    case False
    with r have "find_fit_spec s sz bs = Inr r" by simp
    from Cons.IH [OF this] show ?thesis
    proof
      assume "r = 0 \<and> (\<forall>b\<in>set bs. \<exists>w. GET_SIZE s (HDRP b) = Inr w \<and> w < sz)"
      with b False show ?thesis by auto
    next
      assume "\<exists>ys zs w. bs = ys @ r # zs \<and> GET_SIZE s (HDRP r) = Inr w \<and> sz \<le> w
            \<and> (\<forall>b\<in>set ys. \<exists>v. GET_SIZE s (HDRP b) = Inr v \<and> v < sz)"
      then obtain ys zs w where bs: "bs = ys @ r # zs" and w: "GET_SIZE s (HDRP r) = Inr w" "sz \<le> w"
        and ys: "\<forall>b\<in>set ys. \<exists>v. GET_SIZE s (HDRP b) = Inr v \<and> v < sz"
        by blast
      from bs have "b # bs = (b # ys) @ r # zs" by simp
      moreover from ys b False
      have "\<forall>c\<in>set (b # ys). \<exists>v. GET_SIZE s (HDRP c) = Inr v \<and> v < sz" by auto
      ultimately show ?thesis using w by blast
    qed
  qed
qed

text \<open>
  Claim C4. \<^verbatim>\<open>find_fit(asize)\<close> searches only the list of the class of \<open>asize\<close>, from its
  head, and returns the first block whose size is at least \<open>asize\<close>; it returns null when
  that list has no such block, even when a list of a larger class has one.

  When the list of the class of the request is the chain \<open>xs\<close>, the result is that of the
  specification on \<open>xs\<close>, whatever the other lists hold: null with every block of \<open>xs\<close>
  smaller than the request, or a block of \<open>xs\<close> that is large enough with only smaller
  blocks before it. On the heap of \<^verbatim>\<open>mm_init\<close> a request of 16 bytes (class 4) returns
  null although list 5 holds a block of 32 bytes.
\<close>

theorem find_fit_searches_one_list:
  "(GETfreelistp s (class_loop 0 sz) = Inr h \<longrightarrow> chain s h xs \<longrightarrow>
      find_fit s sz = Some (find_fit_spec s sz xs))
   \<and> (find_fit_spec s sz xs = Inr r \<longrightarrow>
        (r = 0 \<and> (\<forall>b\<in>set xs. \<exists>w. GET_SIZE s (HDRP b) = Inr w \<and> w < sz))
        \<or> (\<exists>ys zs w. xs = ys @ r # zs \<and> GET_SIZE s (HDRP r) = Inr w \<and> sz \<le> w
               \<and> (\<forall>b\<in>set ys. \<exists>v. GET_SIZE s (HDRP b) = Inr v \<and> v < sz)))
   \<and> (class_loop 0 16 = 4
       \<and> find_fit (heap_init blank) 16 = Some (Inr 0)
       \<and> GETfreelistp (heap_init blank) 5 = Inr 0x10040
       \<and> GET_SIZE (heap_init blank) (HDRP 0x10040) = Inr 32)"
proof -
  have "GETfreelistp s (class_loop 0 sz) = Inr h \<longrightarrow> chain s h xs \<longrightarrow>
      find_fit s sz = Some (find_fit_spec s sz xs)"
    by (simp add: find_fit_def Let_def lift_def find_fit_loop_chain)
  moreover have "class_loop 0 16 = 4
       \<and> find_fit (heap_init blank) 16 = Some (Inr 0)
       \<and> GETfreelistp (heap_init blank) 5 = Inr 0x10040
       \<and> GET_SIZE (heap_init blank) (HDRP 0x10040) = Inr 32"
    by (simp add: find_fit_def find_fit_loop.simps macros heap_init_def)
  moreover note find_fit_spec_first [of s sz xs r]
  ultimately show ?thesis by blast
qed

theorem find_fit_searches_one_list_witness:
  "class_loop 0 40 = 5 \<and> class_loop 0 56 = 5
   \<and> GETfreelistp (heap_shrunk blank) 5 = Inr 0x10080
   \<and> chain (heap_shrunk blank) 0x10080 [0x10080, 0x100B0]
   \<and> GET_SIZE (heap_shrunk blank) (HDRP 0x10080) = Inr 48
   \<and> GET_SIZE (heap_shrunk blank) (HDRP 0x100B0) = Inr 32
   \<and> find_fit (heap_shrunk blank) 40 = Some (Inr 0x10080)
   \<and> find_fit (heap_shrunk blank) 56 = Some (Inr 0)"
proof -
  have c: "class_loop 0 40 = 5" "class_loop 0 56 = 5" by (simp_all add: class_loop.simps)
  have g: "GETfreelistp (heap_shrunk blank) 5 = Inr 0x10080"
    and ch: "chain (heap_shrunk blank) 0x10080 [0x10080, 0x100B0]"
    and s1: "GET_SIZE (heap_shrunk blank) (HDRP 0x10080) = Inr 48"
    and s2: "GET_SIZE (heap_shrunk blank) (HDRP 0x100B0) = Inr 32"
    by (simp_all add: macros heap_shrunk_def)
  from find_fit_searches_one_list [of "heap_shrunk blank" 40 "0x10080" "[0x10080, 0x100B0]" "0x10080"]
    find_fit_searches_one_list [of "heap_shrunk blank" 56 "0x10080" "[0x10080, 0x100B0]" 0]
    c g ch s1 s2
  show ?thesis by (simp add: bind_def)
qed


section \<open>The move of \<^verbatim>\<open>mm_realloc\<close>\<close>

lemma user_writes:
  "bind (PUT (heap_alloc16 m) 0x10040 w0) (\<lambda>s1. bind (PUT s1 0x10044 w1) (\<lambda>s2.
     bind (PUT s2 0x10048 w2) (\<lambda>s3. PUT s3 0x1004C w3))) = Inr (heap_written16 m w0 w1 w2 w3)"
  by (simp add: macros heap_alloc16_def heap_written16_def)

lemma realloc_path:
  assumes "ptr \<noteq> 0" "GET_SIZE s (HDRP ptr) = Inr oldbsize" "0 < sint (ALIGN n)"
    "oldbsize < ALIGN n + DSIZE" "NEXT_BLKP s ptr = Inr nb"
    "GET_ALLOC s (HDRP nb) = Inr n_status" "GET_SIZE s (HDRP nb) = Inr nsz"
    "\<not> (n_status = 0 \<and> ALIGN n + DSIZE \<le> oldbsize + nsz)"
  shows "mm_realloc s ptr n = realloc_move s ptr (ALIGN n + DSIZE)"
  using assms by (auto simp: mm_realloc_def Let_def lift_def)

lemma realloc_move_null:
  assumes "mm_malloc s required = Some (Inr (s1, 0))"
  shows "realloc_move s ptr required = Some (Inr (s1, 0))"
  using assms by (simp add: realloc_move_def bindo_def lift_def)

lemma realloc_move_steps:
  assumes "mm_malloc s required = Some (Inr (s1, q))" "q \<noteq> 0"
  shows "realloc_move s ptr required =
     Some (bind (memcpy s1 q ptr required) (\<lambda>s2. bind (mm_free s2 ptr) (\<lambda>s3. Inr (s3, q))))"
  using assms by (simp add: realloc_move_def bindo_def lift_def)

lemma memcpy_copies:
  assumes "range_ok s1 ptr required" "range_ok s1 q required"
  shows "\<exists>s2. memcpy s1 q ptr required = Inr s2 \<and> same_region s1 s2
     \<and> (\<forall>a. (a - q < required \<longrightarrow> \<not> ptr + (a - q) - q < required \<longrightarrow>
               mem s2 a = mem s1 (ptr + (a - q)))
            \<and> (\<not> a - q < required \<longrightarrow> mem s2 a = mem s1 a))"
  using assms by (simp add: memcpy_def same_region_def)

lemma not7: "(x::word32) AND NOT 7 = push_bit 3 (drop_bit 3 x)"
  by (rule bit_eqI) (auto simp: bit_simps m7)

lemma unat_align: "unat ((x::word32) AND NOT 7) = unat x div 8 * 8"
proof -
  have "unat x div 8 * 8 \<le> unat x" by simp
  moreover have "unat x < 2 ^ 32" using unsigned_less [of x] by simp
  ultimately have "unat x div 8 * 8 < 2 ^ 32" by linarith
  then have "unat (x div 8 * 8) = unat x div 8 * 8"
    by (simp add: unat_word_ariths unat_div)
  then have "unat (push_bit 3 (drop_bit 3 x)) = unat x div 8 * 8"
    by (simp add: push_bit_eq_mult drop_bit_eq_div)
  then show ?thesis by (simp only: not7)
qed

lemma ALIGN_nat:
  assumes "unat n + 7 < 2 ^ 32"
  shows "unat (ALIGN n) = round_up_to_8 (unat n)"
proof -
  have "unat (n + 7) = unat n + 7" using assms by (simp add: unat_word_ariths)
  then show ?thesis by (simp only: ALIGN_def unat_align round_up_to_8_def)
qed

lemma required_nat:
  assumes "unat n + 15 < 2 ^ 32"
  shows "unat (ALIGN n + DSIZE) = round_up_to_8 (unat n) + 8"
proof -
  have a: "unat (ALIGN n) = round_up_to_8 (unat n)" using assms by (intro ALIGN_nat) simp
  have "round_up_to_8 (unat n) \<le> unat n + 7" by (simp add: round_up_to_8_def)
  with assms have "unat (ALIGN n) + 8 < 2 ^ 32" using a by simp
  then show ?thesis using a by (simp add: unat_word_ariths)
qed

lemma malloc_4104:
  "mm_malloc ((heap_written16 m w0 w1 w2 w3)\<lparr>copy_choice := c\<rparr>) 4104 =
     Some (Inr ((heap_new4104 m w0 w1 w2 w3)\<lparr>copy_choice := c\<rparr>, 0x10058))"
  by (simp add: operations macros heap_alloc16_def heap_written16_def heap_new4104_def)

lemma memcpy_4104:
  "memcpy ((heap_new4104 m w0 w1 w2 w3)\<lparr>copy_choice := c\<rparr>) 0x10058 0x10040 4104
     = Inr (heap_copied c m w0 w1 w2 w3)"
proof -
  have "range_ok ((heap_new4104 m w0 w1 w2 w3)\<lparr>copy_choice := c\<rparr>) 0x10040 4104"
    and "range_ok ((heap_new4104 m w0 w1 w2 w3)\<lparr>copy_choice := c\<rparr>) 0x10058 4104"
    by (simp_all add: range_ok_def heap_new4104_def)
  then show ?thesis by (simp add: memcpy_def heap_copied_def cong: if_cong)
qed

lemma free_after_copy:
  "mm_free (heap_copied c m w0 w1 w2 w3) 0x10040 = Inr (heap_moved c m w0 w1 w2 w3)"
  by (simp add: operations macros heap_new4104_def heap_copied_def heap_moved_def)

lemma realloc_4096:
  "mm_realloc ((heap_written16 m w0 w1 w2 w3)\<lparr>copy_choice := c\<rparr>) 0x10040 4096 =
     Some (Inr (heap_moved c m w0 w1 w2 w3, 0x10058))"
proof -
  have "mm_realloc ((heap_written16 m w0 w1 w2 w3)\<lparr>copy_choice := c\<rparr>) 0x10040 4096 =
      realloc_move ((heap_written16 m w0 w1 w2 w3)\<lparr>copy_choice := c\<rparr>) 0x10040 4104"
    by (simp add: mm_realloc_def ALIGN_def macros heap_alloc16_def heap_written16_def)
  also have "\<dots> = Some (Inr (heap_moved c m w0 w1 w2 w3, 0x10058))"
    using realloc_move_steps [OF malloc_4104 [of c m w0 w1 w2 w3], of "0x10040"]
      memcpy_4104 [of c m w0 w1 w2 w3] free_after_copy [of c m w0 w1 w2 w3]
    by (simp add: bind_def)
  finally show ?thesis .
qed

lemma moved_payload:
  "GET (heap_moved c m w0 w1 w2 w3) 0x10058 = Inr w0"
  "GET (heap_moved c m w0 w1 w2 w3) 0x1005C = Inr w1"
  "GET (heap_moved c m w0 w1 w2 w3) 0x10060 = Inr w2"
  "GET (heap_moved c m w0 w1 w2 w3) 0x10064 = Inr w3"
  by (simp_all add: GET_def accessible_def heap_new4104_def heap_copied_def heap_moved_def)

lemma far_heap:
  "bindo (mm_malloc (heap_init m) 4096) (\<lambda>(s1, a).
     bindo (mm_malloc s1 16) (\<lambda>(s2, p).
     lift (mm_free s2 a) (\<lambda>s3. Some (Inr (a, p, s3)))))
   = Some (Inr (0x10040, 0x11048, heap_far m))"
  by (simp add: operations macros heap_init_def heap_far_def)

lemma far_malloc: "mm_malloc (heap_far m) 4008 = Some (Inr (heap_far_new m, 0x10040))"
  by (simp add: operations macros heap_far_def heap_far_new_def)

lemma far_ranges:
  "range_ok (heap_far_new m) 0x11048 4008" "range_ok (heap_far_new m) 0x10040 4008"
  "unat (region_brk (heap_far_new m)) < unat (0x11048 :: addr) + unat (4008 :: word32)"
  by (simp_all add: range_ok_def heap_far_new_def)

lemma far_memcpy: "memcpy (heap_far_new m) 0x10040 0x11048 4008 = Inr (heap_far_copied m)"
proof -
  have "copy_choice (heap_far_new m) = no_choice" by (simp add: heap_far_new_def)
  with far_ranges(1,2) [of m] show ?thesis
    by (simp add: memcpy_def heap_far_copied_def cong: if_cong)
qed

lemma far_free: "mm_free (heap_far_copied m) 0x11048 = Inr (heap_far_moved m)"
  by (simp add: operations macros heap_far_copied_def heap_far_new_def heap_far_moved_def
      no_choice_def)

lemma far_path:
  "GET_SIZE (heap_far m) (HDRP 0x11048) = Inr 24"
  "NEXT_BLKP (heap_far m) 0x11048 = Inr 0x11060"
  "GET_ALLOC (heap_far m) (HDRP 0x11060) = Inr 0"
  "GET_SIZE (heap_far m) (HDRP 0x11060) = Inr 40"
  by (simp_all add: macros heap_far_def)

lemma far_size:
  "0 < sint (ALIGN 4000)" "(24 :: word32) < ALIGN 4000 + DSIZE" "ALIGN 4000 + DSIZE = 4008"
  by (simp_all add: ALIGN_def)

text \<open>
  Claim C7. When \<^verbatim>\<open>reallocate\<close> can neither keep the block nor merge it with the next
  one, it allocates a new block, copies exactly \<open>required = align8(n) + 8\<close> bytes from the
  old payload to the new block, frees the old block and returns the new pointer; so for
  \<^verbatim>\<open>p = allocate(16); r = reallocate(p, 4096)\<close> the result \<open>r\<close> differs from \<open>p\<close> and the
  first 16 bytes at \<open>r\<close> are those written through \<open>p\<close>.

  The first part gives the conditions under which \<^verbatim>\<open>mm_realloc\<close> takes its last branch,
  and the second that \<open>required = ALIGN n + DSIZE\<close> is \<open>n\<close> rounded up to a multiple of 8,
  plus 8, as long as that fits 32 bits. The third and fourth parts are the steps of the
  branch: a null result of \<^verbatim>\<open>mm_malloc(required)\<close> is returned; otherwise the result is
  that of the copy of \<open>required\<close> bytes from \<open>ptr\<close> to the new block \<open>q\<close>, then
  \<^verbatim>\<open>mm_free(ptr)\<close>, with \<open>q\<close> returned. The fifth part is the copy: whenever both ranges
  lie in the arena it succeeds, every cell of the destination whose source cell lies
  outside the destination holds the word of its source cell, and the cells outside the
  destination are unchanged. The last part is the scenario, for any initial memory, any
  four words written through \<open>p\<close> and any choice of the library: there the source and
  the destination overlap, and the four words lie in the part that does not.
\<close>

theorem realloc_move_copies_required:
  "(ptr \<noteq> 0 \<longrightarrow> GET_SIZE s (HDRP ptr) = Inr oldbsize \<longrightarrow> 0 < sint (ALIGN n) \<longrightarrow>
      oldbsize < ALIGN n + DSIZE \<longrightarrow> NEXT_BLKP s ptr = Inr nb \<longrightarrow>
      GET_ALLOC s (HDRP nb) = Inr n_status \<longrightarrow> GET_SIZE s (HDRP nb) = Inr nsz \<longrightarrow>
      \<not> (n_status = 0 \<and> ALIGN n + DSIZE \<le> oldbsize + nsz) \<longrightarrow>
      mm_realloc s ptr n = realloc_move s ptr (ALIGN n + DSIZE))
   \<and> (unat n + 15 < 2 ^ 32 \<longrightarrow> unat (ALIGN n + DSIZE) = round_up_to_8 (unat n) + 8)
   \<and> (mm_malloc s required = Some (Inr (s1, 0)) \<longrightarrow>
        realloc_move s ptr required = Some (Inr (s1, 0)))
   \<and> (mm_malloc s required = Some (Inr (s1, q)) \<longrightarrow> q \<noteq> 0 \<longrightarrow>
        realloc_move s ptr required =
          Some (bind (memcpy s1 q ptr required) (\<lambda>s2.
                bind (mm_free s2 ptr) (\<lambda>s3. Inr (s3, q)))))
   \<and> (range_ok s1 ptr required \<longrightarrow> range_ok s1 q required \<longrightarrow>
        (\<exists>s2. memcpy s1 q ptr required = Inr s2 \<and> same_region s1 s2
           \<and> (\<forall>a. (a - q < required \<longrightarrow> \<not> ptr + (a - q) - q < required \<longrightarrow>
                     mem s2 a = mem s1 (ptr + (a - q)))
                  \<and> (\<not> a - q < required \<longrightarrow> mem s2 a = mem s1 a))))
   \<and> (mm_malloc (heap_init m) 16 = Some (Inr (heap_alloc16 m, 0x10040))
       \<and> bind (PUT (heap_alloc16 m) 0x10040 w0) (\<lambda>t1. bind (PUT t1 0x10044 w1) (\<lambda>t2.
            bind (PUT t2 0x10048 w2) (\<lambda>t3. PUT t3 0x1004C w3)))
          = Inr (heap_written16 m w0 w1 w2 w3)
       \<and> mm_realloc ((heap_written16 m w0 w1 w2 w3)\<lparr>copy_choice := c\<rparr>) 0x10040 4096
          = Some (Inr (heap_moved c m w0 w1 w2 w3, 0x10058))
       \<and> (0x10058 :: addr) \<noteq> 0x10040
       \<and> GET (heap_moved c m w0 w1 w2 w3) 0x10058 = Inr w0
       \<and> GET (heap_moved c m w0 w1 w2 w3) 0x1005C = Inr w1
       \<and> GET (heap_moved c m w0 w1 w2 w3) 0x10060 = Inr w2
       \<and> GET (heap_moved c m w0 w1 w2 w3) 0x10064 = Inr w3)"
  using realloc_path [of ptr s oldbsize n nb n_status nsz]
    required_nat [of n]
    realloc_move_null [of s required s1 ptr]
    realloc_move_steps [of s required s1 q ptr]
    memcpy_copies [of s1 ptr required q]
    malloc_16 [of m] user_writes [of m w0 w1 w2 w3] realloc_4096 [of c m w0 w1 w2 w3]
    moved_payload [of c m w0 w1 w2 w3]
  by simp

theorem realloc_move_copies_required_witness:
  "GET_SIZE (heap_far blank) (HDRP 0x11048) = Inr 24
   \<and> 0 < sint (ALIGN 4000)
   \<and> (24 :: word32) < ALIGN 4000 + DSIZE
   \<and> NEXT_BLKP (heap_far blank) 0x11048 = Inr 0x11060
   \<and> GET_ALLOC (heap_far blank) (HDRP 0x11060) = Inr 0
   \<and> GET_SIZE (heap_far blank) (HDRP 0x11060) = Inr 40
   \<and> ALIGN 4000 + DSIZE = 4008
   \<and> unat (ALIGN 4000 + DSIZE) = round_up_to_8 (unat (4000 :: word32)) + 8
   \<and> mm_malloc (heap_far blank) 4008 = Some (Inr (heap_far_new blank, 0x10040))
   \<and> range_ok (heap_far_new blank) 0x11048 4008
   \<and> range_ok (heap_far_new blank) 0x10040 4008
   \<and> unat (region_brk (heap_far_new blank)) < unat (0x11048 :: addr) + unat (4008 :: word32)
   \<and> memcpy (heap_far_new blank) 0x10040 0x11048 4008 = Inr (heap_far_copied blank)
   \<and> mm_free (heap_far_copied blank) 0x11048 = Inr (heap_far_moved blank)
   \<and> mm_realloc (heap_far blank) 0x11048 4000 = Some (Inr (heap_far_moved blank, 0x10040))
   \<and> mem (heap_far_copied blank) 0x10040 = mem (heap_far_new blank) 0x11048
   \<and> mem (heap_far_copied blank) 0x10FE4 = mem (heap_far_new blank) 0x11FEC
   \<and> mem (heap_far_copied blank) 0x10FE8 = mem (heap_far_new blank) 0x10FE8"
proof -
  note a = far_path [of blank] far_size
  note h = far_malloc [of blank] and i = far_memcpy [of blank] and j = far_free [of blank]
    and r = far_ranges [of blank]
  note t = realloc_move_copies_required
    [of "0x11048" "heap_far blank" 24 4000 "0x11060" 0 40 4008 "heap_far_new blank" "0x10040"
      blank 1 2 3 4 no_choice]
  have u: "unat (4000 :: word32) + 15 < 2 ^ 32" by simp
  from t u have 0: "unat (ALIGN 4000 + DSIZE) = round_up_to_8 (unat (4000 :: word32)) + 8"
    by blast
  from t a h
  have "mm_realloc (heap_far blank) 0x11048 4000 =
      Some (bind (memcpy (heap_far_new blank) 0x10040 0x11048 4008) (\<lambda>s2.
            bind (mm_free s2 0x11048) (\<lambda>s3. Inr (s3, 0x10040))))"
    by simp
  with i j
  have 1: "mm_realloc (heap_far blank) 0x11048 4000 = Some (Inr (heap_far_moved blank, 0x10040))"
    by (simp add: bind_def)
  from t r(1,2) i
  have 2: "\<forall>a. (a - 0x10040 < 4008 \<longrightarrow> \<not> 0x11048 + (a - 0x10040) - 0x10040 < 4008 \<longrightarrow>
                 mem (heap_far_copied blank) a = mem (heap_far_new blank) (0x11048 + (a - 0x10040)))
              \<and> (\<not> a - 0x10040 < 4008 \<longrightarrow>
                 mem (heap_far_copied blank) a = mem (heap_far_new blank) a)"
    by simp
  from 2 [rule_format, of "0x10040"]
  have 3: "mem (heap_far_copied blank) 0x10040 = mem (heap_far_new blank) 0x11048" by simp
  from 2 [rule_format, of "0x10FE4"]
  have 4: "mem (heap_far_copied blank) 0x10FE4 = mem (heap_far_new blank) 0x11FEC" by simp
  from 2 [rule_format, of "0x10FE8"]
  have 5: "mem (heap_far_copied blank) 0x10FE8 = mem (heap_far_new blank) 0x10FE8" by simp
  from a 0 h r i j 1 3 4 5 show ?thesis by simp
qed

end
